theory Spec2Isabelle
  imports Main "HOL-Library.AList" "HOL-Library.Multiset"
begin

section \<open>Library functions the service calls\<close>

text \<open>
  The service relies on two library parsers, \<^verbatim>\<open>uuid.Parse\<close> (github.com/google/uuid) and
  \<^verbatim>\<open>time.Parse\<close> (Go standard library) with the layouts \<^verbatim>\<open>"01-2006"\<close> and
  \<^verbatim>\<open>"2006-01-02"\<close>.  They are modelled on bytes.  The theorems below only use whether a
  parse succeeds and which value it yields.
\<close>

type_synonym uuid = "nat list"

definition isDigit :: "char \<Rightarrow> bool" where
  "isDigit c = (48 \<le> (of_char c :: nat) \<and> (of_char c :: nat) \<le> 57)"

definition digit :: "char \<Rightarrow> nat" where
  "digit c = (of_char c :: nat) - 48"

definition xval :: "char \<Rightarrow> nat option" where
  "xval c = (let n = (of_char c :: nat) in
     if 48 \<le> n \<and> n \<le> 57 then Some (n - 48)
     else if 97 \<le> n \<and> n \<le> 102 then Some (n - 87)
     else if 65 \<le> n \<and> n \<le> 70 then Some (n - 55)
     else None)"

definition xtob :: "char \<Rightarrow> char \<Rightarrow> nat option" where
  "xtob a b = (case xval a of None \<Rightarrow> None
     | Some h \<Rightarrow> (case xval b of None \<Rightarrow> None | Some l \<Rightarrow> Some (16 * h + l)))"

fun hex_pairs :: "string \<Rightarrow> uuid option" where
  "hex_pairs [] = Some []"
| "hex_pairs [a] = None"
| "hex_pairs (a # b # r) =
     (case xtob a b of None \<Rightarrow> None
      | Some v \<Rightarrow> (case hex_pairs r of None \<Rightarrow> None | Some vs \<Rightarrow> Some (v # vs)))"

definition lower :: "char \<Rightarrow> char" where
  "lower c = (let n = (of_char c :: nat) in
     if 65 \<le> n \<and> n \<le> 90 then char_of (n + 32) else c)"

text \<open>The dashed form \<^verbatim>\<open>xxxxxxxx-xxxx-xxxx-xxxx-xxxxxxxxxxxx\<close>, read from the first 36 bytes.\<close>

definition dashed :: "string \<Rightarrow> uuid option" where
  "dashed s =
     (if s ! 8 \<noteq> CHR ''-'' \<or> s ! 13 \<noteq> CHR ''-'' \<or> s ! 18 \<noteq> CHR ''-'' \<or> s ! 23 \<noteq> CHR ''-''
      then None
      else hex_pairs (take 8 s @ take 4 (drop 9 s) @ take 4 (drop 14 s)
             @ take 4 (drop 19 s) @ take 12 (drop 24 s)))"

definition uuid_Parse :: "string \<Rightarrow> uuid option" where
  "uuid_Parse s =
     (if length s = 36 then dashed s
      else if length s = 45 then
        (if map lower (take 9 s) = ''urn:uuid:'' then dashed (drop 9 s) else None)
      else if length s = 38 then dashed (drop 1 s)
      else if length s = 32 then hex_pairs s
      else None)"

datatype date = Date (year: nat) (month: nat) (day: nat)

text \<open>\<^verbatim>\<open>a.Before(b)\<close> on midnight-UTC instants; \<^verbatim>\<open>a.After(b)\<close> is \<open>date_less b a\<close>.\<close>

definition date_less :: "date \<Rightarrow> date \<Rightarrow> bool" where
  "date_less a b =
     (year a < year b \<or> (year a = year b \<and>
        (month a < month b \<or> (month a = month b \<and> day a < day b))))"

definition date_le :: "date \<Rightarrow> date \<Rightarrow> bool" where
  "date_le a b = (\<not> date_less b a)"

definition num2 :: "char \<Rightarrow> char \<Rightarrow> nat" where
  "num2 a b = 10 * digit a + digit b"

definition num4 :: "char \<Rightarrow> char \<Rightarrow> char \<Rightarrow> char \<Rightarrow> nat" where
  "num4 a b c d = 1000 * digit a + 100 * digit b + 10 * digit c + digit d"

definition isLeap :: "nat \<Rightarrow> bool" where
  "isLeap y = (y mod 4 = 0 \<and> (y mod 100 \<noteq> 0 \<or> y mod 400 = 0))"

definition daysIn :: "nat \<Rightarrow> nat \<Rightarrow> nat" where
  "daysIn m y =
     (if m = 2 then (if isLeap y then 29 else 28)
      else if m = 4 \<or> m = 6 \<or> m = 9 \<or> m = 11 then 30 else 31)"

text \<open>\<^verbatim>\<open>time.Parse("01-2006", s)\<close>: two-digit month, a dash, four-digit year, nothing else.\<close>

definition Parse_01_2006 :: "string \<Rightarrow> date option" where
  "Parse_01_2006 s =
     (if length s = 7 \<and> list_all isDigit (take 2 s) \<and> s ! 2 = CHR ''-''
         \<and> list_all isDigit (drop 3 s)
         \<and> 1 \<le> num2 (s ! 0) (s ! 1) \<and> num2 (s ! 0) (s ! 1) \<le> 12
      then Some (Date (num4 (s ! 3) (s ! 4) (s ! 5) (s ! 6)) (num2 (s ! 0) (s ! 1)) 1)
      else None)"

text \<open>\<^verbatim>\<open>time.Parse("2006-01-02", s)\<close>: year, month, day; the day is checked against the
  length of the month.\<close>

definition Parse_2006_01_02 :: "string \<Rightarrow> date option" where
  "Parse_2006_01_02 s =
     (if length s = 10 \<and> list_all isDigit (take 4 s) \<and> s ! 4 = CHR ''-''
         \<and> list_all isDigit (take 2 (drop 5 s)) \<and> s ! 7 = CHR ''-''
         \<and> list_all isDigit (drop 8 s)
         \<and> 1 \<le> num2 (s ! 5) (s ! 6) \<and> num2 (s ! 5) (s ! 6) \<le> 12
         \<and> 1 \<le> num2 (s ! 8) (s ! 9)
         \<and> num2 (s ! 8) (s ! 9)
              \<le> daysIn (num2 (s ! 5) (s ! 6)) (num4 (s ! 0) (s ! 1) (s ! 2) (s ! 3))
      then Some (Date (num4 (s ! 0) (s ! 1) (s ! 2) (s ! 3)) (num2 (s ! 5) (s ! 6))
                   (num2 (s ! 8) (s ! 9)))
      else None)"

section \<open>Entity and request model (internal/model)\<close>

record Subscription =
  ID :: uuid
  ServiceName :: string
  Price :: int
  UserID :: uuid
  StartDate :: date
  EndDate :: "date option"
  CreatedAt :: nat
  UpdatedAt :: nat

record CreateSubscriptionRequest =
  cr_ServiceName :: string
  cr_Price :: int
  cr_UserID :: string
  cr_StartDate :: string
  cr_EndDate :: string

text \<open>A nil pointer field of the Go struct is \<open>None\<close>.\<close>

record UpdateSubscriptionRequest =
  ur_ServiceName :: "string option"
  ur_Price :: "int option"
  ur_EndDate :: "string option"

record SubscriptionFilter =
  f_UserID :: "uuid option"
  f_ServiceName :: "string option"
  f_StartDate :: "date option"
  f_EndDate :: "date option"
  f_Limit :: int
  f_Offset :: int

record AggregateRequest =
  ar_UserID :: "string option"
  ar_ServiceName :: "string option"
  ar_StartDate :: string
  ar_EndDate :: string

datatype AggregateResponse = AggregateResponse (TotalPrice: int)

text \<open>Go errors.  \<open>Errorf m e\<close> is \<^verbatim>\<open>fmt.Errorf(m + ": %w", e)\<close>; \<open>ErrorsNew m\<close> is an error
  that wraps nothing; \<open>PqError\<close> is an error reported by the database driver.\<close>

datatype error =
    ErrorsNew string
  | Errorf string error
  | ValidationError string error
  | NotFoundError string
  | ErrNoUpdates
  | ErrNoRows
  | InvalidUUID
  | TimeParseError
  | PqError string

fun errors_Is :: "error \<Rightarrow> error \<Rightarrow> bool" where
  "errors_Is (Errorf m e) t = (Errorf m e = t \<or> errors_Is e t)"
| "errors_Is (ValidationError f e) t = (ValidationError f e = t \<or> errors_Is e t)"
| "errors_Is e t = (e = t)"

text \<open>\<^verbatim>\<open>errors.As(err, &validationErr)\<close>: the first \<^verbatim>\<open>*ValidationError\<close> in the chain.\<close>

fun as_ValidationError :: "error \<Rightarrow> (string \<times> error) option" where
  "as_ValidationError (ValidationError f e) = Some (f, e)"
| "as_ValidationError (Errorf m e) = as_ValidationError e"
| "as_ValidationError e = None"

text \<open>A Go slice value: the nil slice, or an allocated one.\<close>

datatype 'a slice = NilSlice | Slice "'a list"

fun elems :: "'a slice \<Rightarrow> 'a list" where
  "elems NilSlice = []"
| "elems (Slice xs) = xs"

definition append_slice :: "'a slice \<Rightarrow> 'a \<Rightarrow> 'a slice" where
  "append_slice s x = Slice (elems s @ [x])"

section \<open>The relational store\<close>

text \<open>
  The repository talks to PostgreSQL through \<^verbatim>\<open>database/sql\<close>.  The store is modelled as the
  table \<^verbatim>\<open>subscriptions\<close> of migrations/create_table.up.sql (rows in insertion order), a flag
  saying whether the server answers, and the log of every statement handed to the driver.
  A statement is kept in structured form: a clause \<open>(c, i)\<close> of an UPDATE stands for the text
  \<^verbatim>\<open>c = $i\<close>, a condition \<open>Cmp c op i\<close> for \<^verbatim>\<open>c op $i\<close>, and \<open>NullOr c k\<close> for
  \<^verbatim>\<open>(c IS NULL OR k)\<close>.  A server that does not answer fails every statement; a server
  that answers fails a statement whose placeholders and arguments do not fit, whose values
  have the wrong type, or whose new row breaks a constraint of the table.  Prices are summed
  as unbounded integers (the server sums \<^verbatim>\<open>INTEGER\<close> values in 64 bits), and text is compared
  byte by byte with ASCII letters folded.
\<close>

datatype sqlval = VNull | VInt int | VText string | VDate date | VUuid uuid | VTime nat

datatype cmpop = OpEq | OpLe | OpGe | OpILike

datatype cond = Cmp string cmpop nat | NullOr string cond

datatype stmt =
    Insert_stmt
  | SelectById_stmt
  | Update_stmt "(string \<times> nat) list" nat
  | SelectList_stmt "cond list" "nat option" "nat option"
  | SelectSum_stmt "cond list"

datatype reply = Affected nat | Rows "Subscription list" | Total int

record db =
  rows :: "Subscription list"
  available :: bool
  log :: "(stmt \<times> sqlval list) list"

subsection \<open>Pattern matching of LIKE and ILIKE\<close>

text \<open>\<open>like_match p s\<close>: the whole of \<open>s\<close> matches the pattern \<open>p\<close>, where \<^verbatim>\<open>%\<close> stands for any
  run of characters, \<^verbatim>\<open>_\<close> for one character and a backslash quotes the next character.\<close>

fun like_match :: "string \<Rightarrow> string \<Rightarrow> bool" where
  "like_match [] s = (s = [])"
| "like_match (p # ps) [] = (p = CHR ''%'' \<and> like_match ps [])"
| "like_match (p # ps) (c # t) =
     (if p = CHR ''%'' then like_match ps (c # t) \<or> like_match (p # ps) t
      else if p = CHR ''_'' then like_match ps t
      else if p = CHR 0x5C then
        (case ps of [] \<Rightarrow> False | q # qs \<Rightarrow> c = q \<and> like_match qs t)
      else c = p \<and> like_match ps t)"

text \<open>A pattern must not end with the escape character; the server rejects such a pattern
  when the matcher reaches it, the model whenever it is used.\<close>

fun like_wf :: "string \<Rightarrow> bool" where
  "like_wf [] = True"
| "like_wf (p # ps) =
     (if p = CHR 0x5C then (case ps of [] \<Rightarrow> False | q # qs \<Rightarrow> like_wf qs) else like_wf ps)"

definition ilike :: "string \<Rightarrow> string \<Rightarrow> bool" where
  "ilike s p = like_match (map lower p) (map lower s)"

subsection \<open>Evaluating conditions\<close>

definition param :: "sqlval list \<Rightarrow> nat \<Rightarrow> sqlval option" where
  "param args n = (if 1 \<le> n \<and> n \<le> length args then Some (args ! (n - 1)) else None)"

text \<open>Every supplied argument is referenced and every reference is supplied.\<close>

definition placeholders_ok :: "nat list \<Rightarrow> sqlval list \<Rightarrow> bool" where
  "placeholders_ok ps args = (set ps = {1..length args})"

definition col_val :: "Subscription \<Rightarrow> string \<Rightarrow> sqlval option" where
  "col_val r c =
     (if c = ''id'' then Some (VUuid (ID r))
      else if c = ''service_name'' then Some (VText (ServiceName r))
      else if c = ''price'' then Some (VInt (Price r))
      else if c = ''user_id'' then Some (VUuid (UserID r))
      else if c = ''start_date'' then Some (VDate (StartDate r))
      else if c = ''end_date'' then
        Some (case EndDate r of None \<Rightarrow> VNull | Some e \<Rightarrow> VDate e)
      else if c = ''created_at'' then Some (VTime (CreatedAt r))
      else if c = ''updated_at'' then Some (VTime (UpdatedAt r))
      else None)"

text \<open>The comparisons the repository emits; \<open>None\<close> is an error of the server (operand types
  that do not fit, or a malformed pattern).  A comparison with NULL is not true.\<close>

fun eval_cmp :: "cmpop \<Rightarrow> sqlval \<Rightarrow> sqlval \<Rightarrow> bool option" where
  "eval_cmp op VNull b = Some False"
| "eval_cmp op (VUuid a) b =
     (case op of OpEq \<Rightarrow> (case b of VUuid x \<Rightarrow> Some (a = x) | VNull \<Rightarrow> Some False | _ \<Rightarrow> None)
      | _ \<Rightarrow> None)"
| "eval_cmp op (VDate a) b =
     (case op of
        OpLe \<Rightarrow> (case b of VDate x \<Rightarrow> Some (date_le a x) | VNull \<Rightarrow> Some False | _ \<Rightarrow> None)
      | OpGe \<Rightarrow> (case b of VDate x \<Rightarrow> Some (date_le x a) | VNull \<Rightarrow> Some False | _ \<Rightarrow> None)
      | _ \<Rightarrow> None)"
| "eval_cmp op (VText a) b =
     (case op of
        OpILike \<Rightarrow> (case b of VText p \<Rightarrow> (if like_wf p then Some (ilike a p) else None)
                     | VNull \<Rightarrow> Some False | _ \<Rightarrow> None)
      | _ \<Rightarrow> None)"
| "eval_cmp op a b = None"

fun eval_cond :: "sqlval list \<Rightarrow> Subscription \<Rightarrow> cond \<Rightarrow> bool option" where
  "eval_cond args r (Cmp c op i) =
     (case col_val r c of None \<Rightarrow> None
      | Some a \<Rightarrow> (case param args i of None \<Rightarrow> None | Some b \<Rightarrow> eval_cmp op a b))"
| "eval_cond args r (NullOr c k) =
     (case col_val r c of None \<Rightarrow> None
      | Some a \<Rightarrow> (case eval_cond args r k of None \<Rightarrow> None
                    | Some b \<Rightarrow> Some (a = VNull \<or> b)))"

fun cond_params :: "cond \<Rightarrow> nat list" where
  "cond_params (Cmp c op i) = [i]"
| "cond_params (NullOr c k) = cond_params k"

text \<open>The WHERE clause is the conjunction of its conditions.\<close>

fun eval_where :: "sqlval list \<Rightarrow> cond list \<Rightarrow> Subscription \<Rightarrow> bool option" where
  "eval_where args [] r = Some True"
| "eval_where args (k # ks) r =
     (case eval_cond args r k of None \<Rightarrow> None
      | Some b \<Rightarrow> (case eval_where args ks r of None \<Rightarrow> None | Some bs \<Rightarrow> Some (b \<and> bs)))"

fun select_rows :: "(Subscription \<Rightarrow> bool option) \<Rightarrow> Subscription list
    \<Rightarrow> Subscription list option" where
  "select_rows f [] = Some []"
| "select_rows f (r # rs) =
     (case f r of None \<Rightarrow> None
      | Some b \<Rightarrow> (case select_rows f rs of None \<Rightarrow> None
                    | Some ys \<Rightarrow> Some (if b then r # ys else ys)))"

subsection \<open>Constraints of the table\<close>

definition int4 :: "int \<Rightarrow> bool" where
  "int4 n = (- 2147483648 \<le> n \<and> n \<le> 2147483647)"

text \<open>\<^verbatim>\<open>VARCHAR(255)\<close>, \<^verbatim>\<open>INTEGER\<close>, \<^verbatim>\<open>CHECK (price >= 0)\<close> and
  \<^verbatim>\<open>CHECK (end_date IS NULL OR end_date >= start_date)\<close>; \<open>None\<close> when the row is accepted.\<close>

definition check_row :: "Subscription \<Rightarrow> error option" where
  "check_row r =
     (if 255 < length (ServiceName r) then
        Some (PqError ''value too long for type character varying(255)'')
      else if \<not> int4 (Price r) then Some (PqError ''integer out of range'')
      else if Price r < 0 then
        Some (PqError ''violates check constraint subscriptions_price_check'')
      else (case EndDate r of
              None \<Rightarrow> None
            | Some e \<Rightarrow> if \<not> date_le (StartDate r) e
                then Some (PqError ''violates check constraint subscriptions_check'')
                else None))"

subsection \<open>Running a statement\<close>

definition row_of_args :: "sqlval list \<Rightarrow> Subscription option" where
  "row_of_args args =
     (case args of
        [VUuid i, VText n, VInt p, VUuid u, VDate s, e, VTime c, VTime t] \<Rightarrow>
          (case e of
             VNull \<Rightarrow> Some \<lparr>ID = i, ServiceName = n, Price = p, UserID = u, StartDate = s,
                            EndDate = None, CreatedAt = c, UpdatedAt = t\<rparr>
           | VDate d \<Rightarrow> Some \<lparr>ID = i, ServiceName = n, Price = p, UserID = u, StartDate = s,
                            EndDate = Some d, CreatedAt = c, UpdatedAt = t\<rparr>
           | _ \<Rightarrow> None)
      | _ \<Rightarrow> None)"

definition set_col :: "string \<Rightarrow> sqlval \<Rightarrow> Subscription \<Rightarrow> Subscription option" where
  "set_col c v r =
     (if c = ''service_name'' then
        (case v of VText s \<Rightarrow> Some (r\<lparr>ServiceName := s\<rparr>) | _ \<Rightarrow> None)
      else if c = ''price'' then
        (case v of VInt p \<Rightarrow> Some (r\<lparr>Price := p\<rparr>) | _ \<Rightarrow> None)
      else if c = ''end_date'' then
        (case v of VNull \<Rightarrow> Some (r\<lparr>EndDate := None\<rparr>)
         | VDate d \<Rightarrow> Some (r\<lparr>EndDate := Some d\<rparr>) | _ \<Rightarrow> None)
      else if c = ''updated_at'' then
        (case v of VTime t \<Rightarrow> Some (r\<lparr>UpdatedAt := t\<rparr>) | _ \<Rightarrow> None)
      else if c = ''start_date'' then
        (case v of VDate d \<Rightarrow> Some (r\<lparr>StartDate := d\<rparr>) | _ \<Rightarrow> None)
      else if c = ''user_id'' then
        (case v of VUuid u \<Rightarrow> Some (r\<lparr>UserID := u\<rparr>) | _ \<Rightarrow> None)
      else if c = ''created_at'' then
        (case v of VTime t \<Rightarrow> Some (r\<lparr>CreatedAt := t\<rparr>) | _ \<Rightarrow> None)
      else if c = ''id'' then
        (case v of VUuid u \<Rightarrow> Some (r\<lparr>ID := u\<rparr>) | _ \<Rightarrow> None)
      else None)"

fun apply_sets :: "(string \<times> nat) list \<Rightarrow> sqlval list \<Rightarrow> Subscription
    \<Rightarrow> Subscription option" where
  "apply_sets [] args r = Some r"
| "apply_sets ((c, i) # cs) args r =
     (case param args i of None \<Rightarrow> None
      | Some v \<Rightarrow> (case set_col c v r of None \<Rightarrow> None | Some r' \<Rightarrow> apply_sets cs args r'))"

text \<open>The rows with the given id get the assignments; a new row must pass the constraints.\<close>

fun update_rows :: "(string \<times> nat) list \<Rightarrow> sqlval list \<Rightarrow> uuid \<Rightarrow> Subscription list
    \<Rightarrow> error + Subscription list" where
  "update_rows cs args i [] = Inr []"
| "update_rows cs args i (r # rs) =
     (if ID r = i then
        (case apply_sets cs args r of
           None \<Rightarrow> Inl (PqError ''invalid assignment'')
         | Some r' \<Rightarrow> (case check_row r' of Some e \<Rightarrow> Inl e
             | None \<Rightarrow> (case update_rows cs args i rs of Inl e \<Rightarrow> Inl e
                         | Inr rs' \<Rightarrow> Inr (r' # rs'))))
      else (case update_rows cs args i rs of Inl e \<Rightarrow> Inl e | Inr rs' \<Rightarrow> Inr (r # rs')))"

text \<open>\<^verbatim>\<open>ORDER BY start_date DESC\<close>.\<close>

fun insert_desc :: "Subscription \<Rightarrow> Subscription list \<Rightarrow> Subscription list" where
  "insert_desc x [] = [x]"
| "insert_desc x (y # ys) =
     (if date_less (StartDate x) (StartDate y) then y # insert_desc x ys else x # y # ys)"

definition order_by_start_desc :: "Subscription list \<Rightarrow> Subscription list" where
  "order_by_start_desc rs = foldr insert_desc rs []"

definition count_param :: "sqlval list \<Rightarrow> nat option \<Rightarrow> (nat option) option" where
  "count_param args p =
     (case p of None \<Rightarrow> Some None
      | Some i \<Rightarrow> (case param args i of
                    Some (VInt n) \<Rightarrow> if 0 \<le> n then Some (Some (nat n)) else None
                  | _ \<Rightarrow> None))"

text \<open>\<open>run\<close> gives the reply of the server and the table afterwards.\<close>

fun run :: "stmt \<Rightarrow> sqlval list \<Rightarrow> Subscription list \<Rightarrow> error + (reply \<times> Subscription list)" where
  "run Insert_stmt args rs =
     (case row_of_args args of
        None \<Rightarrow> Inl (PqError ''invalid input'')
      | Some r \<Rightarrow> (case check_row r of Some e \<Rightarrow> Inl e
          | None \<Rightarrow> if ID r \<in> set (map ID rs)
              then Inl (PqError ''duplicate key value violates unique constraint'')
              else Inr (Affected 1, rs @ [r])))"
| "run SelectById_stmt args rs =
     (case args of [VUuid i] \<Rightarrow> Inr (Rows (filter (\<lambda>r. ID r = i) rs), rs)
      | _ \<Rightarrow> Inl (PqError ''invalid input''))"
| "run (Update_stmt cs w) args rs =
     (if cs = [] \<or> \<not> distinct (map fst cs) \<or> \<not> placeholders_ok (map snd cs @ [w]) args
      then Inl (PqError ''invalid statement'')
      else (case param args w of
              Some (VUuid i) \<Rightarrow>
                (case update_rows cs args i rs of Inl e \<Rightarrow> Inl e
                 | Inr rs' \<Rightarrow>
                     if distinct (map ID rs')
                     then Inr (Affected (length (filter (\<lambda>r. ID r = i) rs)), rs')
                     else Inl (PqError ''duplicate key value violates unique constraint''))
            | _ \<Rightarrow> Inl (PqError ''invalid input'')))"
| "run (SelectList_stmt ks lim off) args rs =
     (if \<not> placeholders_ok (concat (map cond_params ks) @ (case lim of None \<Rightarrow> [] | Some i \<Rightarrow> [i])
             @ (case off of None \<Rightarrow> [] | Some i \<Rightarrow> [i])) args
      then Inl (PqError ''invalid statement'')
      else (case select_rows (eval_where args ks) rs of
              None \<Rightarrow> Inl (PqError ''invalid input'')
            | Some ys \<Rightarrow>
                (case count_param args off of None \<Rightarrow> Inl (PqError ''invalid input'')
                 | Some offs \<Rightarrow> (case count_param args lim of None \<Rightarrow> Inl (PqError ''invalid input'')
                     | Some lims \<Rightarrow>
                         (let ordered = order_by_start_desc ys;
                              dropped = (case offs of None \<Rightarrow> ordered | Some n \<Rightarrow> drop n ordered);
                              taken = (case lims of None \<Rightarrow> dropped | Some n \<Rightarrow> take n dropped)
                          in Inr (Rows taken, rs))))))"
| "run (SelectSum_stmt ks) args rs =
     (if \<not> placeholders_ok (concat (map cond_params ks)) args
      then Inl (PqError ''invalid statement'')
      else (case select_rows (eval_where args ks) rs of
              None \<Rightarrow> Inl (PqError ''invalid input'')
            | Some ys \<Rightarrow> Inr (Total (sum_list (map Price ys)), rs)))"

text \<open>One call of \<^verbatim>\<open>db.Exec\<close>, \<^verbatim>\<open>db.Query\<close> or \<^verbatim>\<open>db.QueryRow\<close>: the statement is logged, and
  it changes the table only when the server answers without an error.\<close>

definition db_exec :: "stmt \<Rightarrow> sqlval list \<Rightarrow> db \<Rightarrow> (error + reply) \<times> db" where
  "db_exec st args d =
     (let d' = d\<lparr>log := log d @ [(st, args)]\<rparr>
      in if \<not> available d then (Inl (PqError ''connection refused''), d')
         else (case run st args (rows d) of
                 Inl e \<Rightarrow> (Inl e, d')
               | Inr (rep, rs) \<Rightarrow> (Inr rep, d'\<lparr>rows := rs\<rparr>)))"

section \<open>Conversion of a create request (internal/model)\<close>

text \<open>\<open>newID\<close> is the value \<^verbatim>\<open>uuid.New()\<close> returns; the timestamps start as the zero time.\<close>

definition ToSubscription :: "uuid \<Rightarrow> CreateSubscriptionRequest \<Rightarrow> error + Subscription" where
  "ToSubscription newID r =
     (case uuid_Parse (cr_UserID r) of
        None \<Rightarrow> Inl InvalidUUID
      | Some userID \<Rightarrow>
          (case Parse_01_2006 (cr_StartDate r) of
             None \<Rightarrow> Inl TimeParseError
           | Some startDate \<Rightarrow>
               (let sub = \<lparr>ID = newID, ServiceName = cr_ServiceName r, Price = cr_Price r,
                           UserID = userID, StartDate = startDate, EndDate = None,
                           CreatedAt = 0, UpdatedAt = 0\<rparr>
                in if cr_EndDate r \<noteq> [] then
                     (case Parse_01_2006 (cr_EndDate r) of
                        None \<Rightarrow> Inl TimeParseError
                      | Some endDate \<Rightarrow> Inr (sub\<lparr>EndDate := Some endDate\<rparr>))
                   else Inr sub)))"

section \<open>Persistence gateway (package repository)\<close>

text \<open>\<open>now\<close> is the value \<^verbatim>\<open>time.Now()\<close> returns.  Every function returns its Go result
  together with the store afterwards.\<close>

definition end_arg :: "date option \<Rightarrow> sqlval" where
  "end_arg e = (case e of None \<Rightarrow> VNull | Some x \<Rightarrow> VDate x)"

definition repo_Create :: "nat \<Rightarrow> Subscription \<Rightarrow> db \<Rightarrow> (error + Subscription) \<times> db" where
  "repo_Create now sub0 d =
     (let sub = sub0\<lparr>CreatedAt := now, UpdatedAt := now\<rparr>
      in case db_exec Insert_stmt
                [VUuid (ID sub), VText (ServiceName sub), VInt (Price sub), VUuid (UserID sub),
                 VDate (StartDate sub), end_arg (EndDate sub), VTime (CreatedAt sub),
                 VTime (UpdatedAt sub)] d of
           (Inl e, d') \<Rightarrow> (Inl (Errorf ''failed to create subscription'' e), d')
         | (Inr rep, d') \<Rightarrow> (Inr sub, d'))"

text \<open>\<^verbatim>\<open>sql.ErrNoRows\<close> from \<^verbatim>\<open>Scan\<close> becomes the result \<^verbatim>\<open>nil, nil\<close>, here \<open>Inr None\<close>.\<close>

definition repo_GetByID :: "uuid \<Rightarrow> db \<Rightarrow> (error + Subscription option) \<times> db" where
  "repo_GetByID uid d =
     (case db_exec SelectById_stmt [VUuid uid] d of
        (Inl e, d') \<Rightarrow> (Inl (Errorf ''failed to get subscription'' e), d')
      | (Inr (Rows []), d') \<Rightarrow> (Inr None, d')
      | (Inr (Rows (sub # rest)), d') \<Rightarrow> (Inr (Some sub), d')
      | (Inr rep, d') \<Rightarrow>
          (Inl (Errorf ''failed to get subscription'' (ErrorsNew ''scan'')), d'))"

text \<open>The update set \<^verbatim>\<open>map[string]interface{}\<close> is an association list with distinct keys.
  Go leaves the order of \<^verbatim>\<open>range\<close> over a map open: \<open>ord\<close> is that order, a function that
  rearranges the entries.\<close>

type_synonym updates = "(string \<times> sqlval) list"

fun set_loop :: "updates \<Rightarrow> (string \<times> nat) list \<Rightarrow> sqlval list \<Rightarrow> nat
    \<Rightarrow> (string \<times> nat) list \<times> sqlval list \<times> nat" where
  "set_loop [] setClauses args i = (setClauses, args, i)"
| "set_loop ((field, v) # rest) setClauses args i =
     set_loop rest (setClauses @ [(field, i)]) (args @ [v]) (Suc i)"

text \<open>The statement and the arguments \<^verbatim>\<open>Update\<close> hands to the driver.\<close>

definition Update_query :: "(updates \<Rightarrow> updates) \<Rightarrow> nat \<Rightarrow> uuid \<Rightarrow> updates
    \<Rightarrow> stmt \<times> sqlval list" where
  "Update_query ord now uid upd =
     (case set_loop (ord upd) [] [] 1 of
        (setClauses, args, i) \<Rightarrow>
          (Update_stmt (setClauses @ [(''updated_at'', i)]) (Suc i),
           args @ [VTime now] @ [VUuid uid]))"

definition repo_Update :: "(updates \<Rightarrow> updates) \<Rightarrow> nat \<Rightarrow> uuid \<Rightarrow> updates \<Rightarrow> db
    \<Rightarrow> (error + unit) \<times> db" where
  "repo_Update ord now uid upd d =
     (if length upd = 0 then (Inr (), d)
      else
        (case Update_query ord now uid upd of
           (query, args) \<Rightarrow>
             (case db_exec query args d of
                (Inl e, d') \<Rightarrow> (Inl (Errorf ''failed to update subscription'' e), d')
              | (Inr (Affected n), d') \<Rightarrow> (if n = 0 then Inl ErrNoRows else Inr (), d')
              | (Inr rep, d') \<Rightarrow> (Inl ErrNoRows, d'))))"

text \<open>The statement and the arguments \<^verbatim>\<open>List\<close> builds, condition by condition.\<close>

definition List_query :: "SubscriptionFilter \<Rightarrow> stmt \<times> sqlval list" where
  "List_query flt =
     (case (case f_UserID flt of
              None \<Rightarrow> ([], [], 1)
            | Some u \<Rightarrow> ([Cmp ''user_id'' OpEq 1], [VUuid u], 2)) of
        (conds1, args1, i1) \<Rightarrow>
     (case (case f_ServiceName flt of
              None \<Rightarrow> (conds1, args1, i1)
            | Some n \<Rightarrow> (conds1 @ [Cmp ''service_name'' OpILike i1],
                         args1 @ [VText (''%'' @ n @ ''%'')], Suc i1)) of
        (conds2, args2, i2) \<Rightarrow>
     (case (case f_StartDate flt of
              None \<Rightarrow> (conds2, args2, i2)
            | Some sd \<Rightarrow> (conds2 @ [Cmp ''start_date'' OpGe i2], args2 @ [VDate sd], Suc i2)) of
        (conds3, args3, i3) \<Rightarrow>
     (case (case f_EndDate flt of
              None \<Rightarrow> (conds3, args3, i3)
            | Some ed \<Rightarrow> (conds3 @ [NullOr ''end_date'' (Cmp ''end_date'' OpLe i3)],
                          args3 @ [VDate ed], Suc i3)) of
        (conds4, args4, i4) \<Rightarrow>
     (case (if f_Limit flt > 0 then (Some i4, args4 @ [VInt (f_Limit flt)], Suc i4)
            else (None, args4, i4)) of
        (lim, args5, i5) \<Rightarrow>
     (case (if f_Offset flt > 0 then (Some i5, args5 @ [VInt (f_Offset flt)])
            else (None, args5)) of
        (off, args6) \<Rightarrow> (SelectList_stmt conds4 lim off, args6)))))))"

text \<open>The scan loop starts from the nil slice and appends one subscription per row.\<close>

definition repo_List :: "SubscriptionFilter \<Rightarrow> db
    \<Rightarrow> (error + Subscription slice) \<times> db" where
  "repo_List flt d =
     (case List_query flt of
        (query, args) \<Rightarrow>
          (case db_exec query args d of
             (Inl e, d') \<Rightarrow> (Inl (Errorf ''failed to list subscriptions'' e), d')
           | (Inr (Rows rs), d') \<Rightarrow>
               (Inr (fold (\<lambda>sub acc. append_slice acc sub) rs NilSlice), d')
           | (Inr rep, d') \<Rightarrow>
               (Inl (Errorf ''failed to scan subscription'' (ErrorsNew ''scan'')), d')))"

text \<open>The statement and the arguments \<^verbatim>\<open>Aggregate\<close> builds.\<close>

definition Aggregate_query :: "date \<Rightarrow> date \<Rightarrow> uuid option \<Rightarrow> string option
    \<Rightarrow> stmt \<times> sqlval list" where
  "Aggregate_query startDate endDate userID serviceName =
     (case (case userID of
              None \<Rightarrow> ([Cmp ''start_date'' OpLe 2, NullOr ''end_date'' (Cmp ''end_date'' OpGe 1)],
                        [VDate startDate, VDate endDate], 3)
            | Some u \<Rightarrow>
                ([Cmp ''start_date'' OpLe 2, NullOr ''end_date'' (Cmp ''end_date'' OpGe 1),
                  Cmp ''user_id'' OpEq 3],
                 [VDate startDate, VDate endDate, VUuid u], 4)) of
        (conds1, args1, i1) \<Rightarrow>
     (case (case serviceName of
              None \<Rightarrow> (conds1, args1)
            | Some n \<Rightarrow> (conds1 @ [Cmp ''service_name'' OpILike i1], args1 @ [VText n])) of
        (conds2, args2) \<Rightarrow> (SelectSum_stmt conds2, args2)))"

definition repo_Aggregate :: "date \<Rightarrow> date \<Rightarrow> uuid option \<Rightarrow> string option \<Rightarrow> db
    \<Rightarrow> (error + int) \<times> db" where
  "repo_Aggregate startDate endDate userID serviceName d =
     (case Aggregate_query startDate endDate userID serviceName of
        (query, args) \<Rightarrow>
          (case db_exec query args d of
             (Inl e, d') \<Rightarrow> (Inl (Errorf ''failed to aggregate subscriptions'' e), d')
           | (Inr (Total t), d') \<Rightarrow> (Inr t, d')
           | (Inr rep, d') \<Rightarrow>
               (Inl (Errorf ''failed to aggregate subscriptions'' (ErrorsNew ''scan'')), d')))"

section \<open>Orchestration layer, internal/service/subscription.go\<close>

text \<open>The repository holds two variants of package \<^verbatim>\<open>service\<close>.  The functions \<open>svc_\<close> are
  those of internal/service/subscription.go, which reports plain errors and reads every date
  in the layout \<^verbatim>\<open>"01-2006"\<close>.\<close>

definition svc_Create :: "uuid \<Rightarrow> nat \<Rightarrow> CreateSubscriptionRequest \<Rightarrow> db
    \<Rightarrow> (error + Subscription) \<times> db" where
  "svc_Create newID now req d =
     (case ToSubscription newID req of
        Inl e \<Rightarrow> (Inl (Errorf ''invalid request data'' e), d)
      | Inr sub \<Rightarrow>
          (case repo_Create now sub d of
             (Inl e, d') \<Rightarrow> (Inl e, d')
           | (Inr sub', d') \<Rightarrow> (Inr sub', d')))"

definition svc_GetByID :: "string \<Rightarrow> db \<Rightarrow> (error + Subscription option) \<times> db" where
  "svc_GetByID ids d =
     (case uuid_Parse ids of
        None \<Rightarrow> (Inl (Errorf ''invalid id format'' InvalidUUID), d)
      | Some uuidID \<Rightarrow>
          (case repo_GetByID uuidID d of
             (Inl e, d') \<Rightarrow> (Inl e, d')
           | (Inr sub, d') \<Rightarrow> (Inr sub, d')))"

text \<open>Lines 69 to 90 of \<^verbatim>\<open>Update\<close>: the update set built from the request.\<close>

definition svc_updates :: "UpdateSubscriptionRequest \<Rightarrow> error + updates" where
  "svc_updates req =
     (let updates0 = [];
          updates1 = (case ur_ServiceName req of
                        None \<Rightarrow> updates0
                      | Some n \<Rightarrow> AList.update ''service_name'' (VText n) updates0);
          updates2 = (case ur_Price req of
                        None \<Rightarrow> updates1
                      | Some p \<Rightarrow> AList.update ''price'' (VInt p) updates1)
      in case ur_EndDate req of
           None \<Rightarrow> Inr updates2
         | Some e \<Rightarrow>
             if e = [] then Inr (AList.update ''end_date'' VNull updates2)
             else (case Parse_01_2006 e of
                     None \<Rightarrow> Inl (Errorf ''invalid end date format'' TimeParseError)
                   | Some endDate \<Rightarrow> Inr (AList.update ''end_date'' (VDate endDate) updates2)))"

definition svc_Update :: "(updates \<Rightarrow> updates) \<Rightarrow> nat \<Rightarrow> string \<Rightarrow> UpdateSubscriptionRequest
    \<Rightarrow> db \<Rightarrow> (error + unit) \<times> db" where
  "svc_Update ord now ids req d =
     (case uuid_Parse ids of
        None \<Rightarrow> (Inl (Errorf ''invalid id format'' InvalidUUID), d)
      | Some uuidID \<Rightarrow>
          (case svc_updates req of
             Inl e \<Rightarrow> (Inl e, d)
           | Inr upd \<Rightarrow>
               (case repo_Update ord now uuidID upd d of
                  (Inl e, d') \<Rightarrow>
                    (if errors_Is e ErrNoRows then Inl (ErrorsNew ''subscription not found'')
                     else Inl e, d')
                | (Inr u, d') \<Rightarrow> (Inr (), d'))))"

definition svc_List :: "string option \<Rightarrow> string option \<Rightarrow> string option \<Rightarrow> string option
    \<Rightarrow> int \<Rightarrow> int \<Rightarrow> db \<Rightarrow> (error + Subscription slice) \<times> db" where
  "svc_List userID serviceName startDate endDate limit offset d =
     (case (case userID of None \<Rightarrow> Inr None
            | Some s \<Rightarrow> (case uuid_Parse s of
                          None \<Rightarrow> Inl (Errorf ''invalid user_id format'' InvalidUUID)
                        | Some u \<Rightarrow> Inr (Some u))) of
        Inl e \<Rightarrow> (Inl e, d)
      | Inr fUserID \<Rightarrow>
     (case (case startDate of None \<Rightarrow> Inr None
            | Some s \<Rightarrow> (case Parse_01_2006 s of
                          None \<Rightarrow> Inl (Errorf ''invalid start_date format'' TimeParseError)
                        | Some sd \<Rightarrow> Inr (Some sd))) of
        Inl e \<Rightarrow> (Inl e, d)
      | Inr fStartDate \<Rightarrow>
     (case (case endDate of None \<Rightarrow> Inr None
            | Some s \<Rightarrow> (case Parse_01_2006 s of
                          None \<Rightarrow> Inl (Errorf ''invalid end_date format'' TimeParseError)
                        | Some ed \<Rightarrow> Inr (Some ed))) of
        Inl e \<Rightarrow> (Inl e, d)
      | Inr fEndDate \<Rightarrow>
          (case repo_List \<lparr>f_UserID = fUserID, f_ServiceName = serviceName,
                            f_StartDate = fStartDate, f_EndDate = fEndDate,
                            f_Limit = limit, f_Offset = offset\<rparr> d of
             (Inl e, d') \<Rightarrow> (Inl e, d')
           | (Inr subscriptions, d') \<Rightarrow> (Inr subscriptions, d')))))"

definition svc_Aggregate :: "AggregateRequest \<Rightarrow> db \<Rightarrow> (error + AggregateResponse) \<times> db" where
  "svc_Aggregate req d =
     (case Parse_01_2006 (ar_StartDate req) of
        None \<Rightarrow> (Inl (Errorf ''invalid start_date format'' TimeParseError), d)
      | Some startDate \<Rightarrow>
     (case Parse_01_2006 (ar_EndDate req) of
        None \<Rightarrow> (Inl (Errorf ''invalid end_date format'' TimeParseError), d)
      | Some endDate \<Rightarrow>
          if date_less endDate startDate
          then (Inl (ErrorsNew ''start_date must be before or equal to end_date''), d)
          else
            (case (case ar_UserID req of None \<Rightarrow> Inr None
                   | Some s \<Rightarrow> (case uuid_Parse s of
                                 None \<Rightarrow> Inl (Errorf ''invalid user_id format'' InvalidUUID)
                               | Some u \<Rightarrow> Inr (Some u))) of
               Inl e \<Rightarrow> (Inl e, d)
             | Inr userIDPtr \<Rightarrow>
                 (case repo_Aggregate startDate endDate userIDPtr (ar_ServiceName req) d of
                    (Inl e, d') \<Rightarrow> (Inl e, d')
                  | (Inr tot, d') \<Rightarrow> (Inr (AggregateResponse tot), d')))))"

section \<open>Orchestration layer, unnamed/part_003\<close>

text \<open>The functions \<open>p3_\<close> are those of the second variant of package \<^verbatim>\<open>service\<close>, which
  has the error types \<^verbatim>\<open>ValidationError\<close> and \<^verbatim>\<open>NotFoundError\<close> and the value
  \<^verbatim>\<open>ErrNoUpdates\<close>, and reads the dates of update, list and aggregate in the layout
  \<^verbatim>\<open>"2006-01-02"\<close>.\<close>

definition p3_Create :: "uuid \<Rightarrow> nat \<Rightarrow> CreateSubscriptionRequest \<Rightarrow> db
    \<Rightarrow> (error + Subscription) \<times> db" where
  "p3_Create newID now req d =
     (if cr_Price req < 0
      then (Inl (ValidationError ''price'' (ErrorsNew ''price cannot be negative'')), d)
      else
        (case ToSubscription newID req of
           Inl e \<Rightarrow> (Inl (ValidationError ''request'' e), d)
         | Inr sub \<Rightarrow>
             (case repo_Create now sub d of
                (Inl e, d') \<Rightarrow> (Inl (Errorf ''failed to create subscription'' e), d')
              | (Inr sub', d') \<Rightarrow> (Inr sub', d'))))"

definition p3_GetByID :: "string \<Rightarrow> db \<Rightarrow> (error + Subscription option) \<times> db" where
  "p3_GetByID ids d =
     (case uuid_Parse ids of
        None \<Rightarrow> (Inl (ValidationError ''id'' (Errorf ''invalid UUID format'' InvalidUUID)), d)
      | Some uuidID \<Rightarrow>
          (case repo_GetByID uuidID d of
             (Inl e, d') \<Rightarrow> (Inl (Errorf ''failed to get subscription'' e), d')
           | (Inr None, d') \<Rightarrow> (Inl (NotFoundError ids), d')
           | (Inr (Some sub), d') \<Rightarrow> (Inr (Some sub), d')))"

text \<open>Lines 117 to 147 of \<^verbatim>\<open>Update\<close>: the update set built from the request.\<close>

definition p3_updates :: "UpdateSubscriptionRequest \<Rightarrow> error + updates" where
  "p3_updates req =
     (let updates0 = [];
          updates1 = (case ur_ServiceName req of
                        None \<Rightarrow> updates0
                      | Some n \<Rightarrow> AList.update ''service_name'' (VText n) updates0)
      in case (case ur_Price req of
                 None \<Rightarrow> Inr updates1
               | Some p \<Rightarrow>
                   if p < 0
                   then Inl (ValidationError ''price'' (ErrorsNew ''price cannot be negative''))
                   else Inr (AList.update ''price'' (VInt p) updates1)) of
           Inl e \<Rightarrow> Inl e
         | Inr updates2 \<Rightarrow>
             (case ur_EndDate req of
                None \<Rightarrow> Inr updates2
              | Some e \<Rightarrow>
                  if e = [] then Inr (AList.update ''end_date'' VNull updates2)
                  else (case Parse_2006_01_02 e of
                          None \<Rightarrow> Inl (ValidationError ''end_date''
                                     (Errorf ''invalid date format, expected YYYY-MM-DD''
                                        TimeParseError))
                        | Some endDate \<Rightarrow>
                            Inr (AList.update ''end_date'' (VDate endDate) updates2))))"

definition p3_Update :: "(updates \<Rightarrow> updates) \<Rightarrow> nat \<Rightarrow> string \<Rightarrow> UpdateSubscriptionRequest
    \<Rightarrow> db \<Rightarrow> (error + unit) \<times> db" where
  "p3_Update ord now ids req d =
     (case uuid_Parse ids of
        None \<Rightarrow> (Inl (ValidationError ''id'' (Errorf ''invalid UUID format'' InvalidUUID)), d)
      | Some uuidID \<Rightarrow>
          (case p3_updates req of
             Inl e \<Rightarrow> (Inl e, d)
           | Inr upd \<Rightarrow>
               if length upd = 0 then (Inl ErrNoUpdates, d)
               else
                 (case repo_Update ord now uuidID upd d of
                    (Inl e, d') \<Rightarrow>
                      (if errors_Is e ErrNoRows then Inl (NotFoundError ids)
                       else Inl (Errorf ''failed to update subscription'' e), d')
                  | (Inr u, d') \<Rightarrow> (Inr (), d'))))"

definition p3_List :: "string option \<Rightarrow> string option \<Rightarrow> string option \<Rightarrow> string option
    \<Rightarrow> int \<Rightarrow> int \<Rightarrow> db \<Rightarrow> (error + Subscription slice) \<times> db" where
  "p3_List userID serviceName startDate endDate limit offset d =
     (case (case userID of None \<Rightarrow> Inr None
            | Some s \<Rightarrow> (case uuid_Parse s of
                          None \<Rightarrow> Inl (ValidationError ''user_id''
                                     (Errorf ''invalid UUID format'' InvalidUUID))
                        | Some u \<Rightarrow> Inr (Some u))) of
        Inl e \<Rightarrow> (Inl e, d)
      | Inr fUserID \<Rightarrow>
     (case (case startDate of None \<Rightarrow> Inr None
            | Some s \<Rightarrow> (case Parse_2006_01_02 s of
                          None \<Rightarrow> Inl (ValidationError ''start_date''
                                     (Errorf ''invalid date format, expected YYYY-MM-DD''
                                        TimeParseError))
                        | Some sd \<Rightarrow> Inr (Some sd))) of
        Inl e \<Rightarrow> (Inl e, d)
      | Inr fStartDate \<Rightarrow>
     (case (case endDate of None \<Rightarrow> Inr None
            | Some s \<Rightarrow> (case Parse_2006_01_02 s of
                          None \<Rightarrow> Inl (ValidationError ''end_date''
                                     (Errorf ''invalid date format, expected YYYY-MM-DD''
                                        TimeParseError))
                        | Some ed \<Rightarrow> Inr (Some ed))) of
        Inl e \<Rightarrow> (Inl e, d)
      | Inr fEndDate \<Rightarrow>
          (case repo_List \<lparr>f_UserID = fUserID, f_ServiceName = serviceName,
                            f_StartDate = fStartDate, f_EndDate = fEndDate,
                            f_Limit = limit, f_Offset = offset\<rparr> d of
             (Inl e, d') \<Rightarrow> (Inl (Errorf ''failed to list subscriptions'' e), d')
           | (Inr subscriptions, d') \<Rightarrow> (Inr subscriptions, d')))))"

definition p3_Aggregate :: "AggregateRequest \<Rightarrow> db \<Rightarrow> (error + AggregateResponse) \<times> db" where
  "p3_Aggregate req d =
     (case Parse_2006_01_02 (ar_StartDate req) of
        None \<Rightarrow> (Inl (ValidationError ''start_date''
                   (Errorf ''invalid date format, expected YYYY-MM-DD'' TimeParseError)), d)
      | Some startDate \<Rightarrow>
     (case Parse_2006_01_02 (ar_EndDate req) of
        None \<Rightarrow> (Inl (ValidationError ''end_date''
                   (Errorf ''invalid date format, expected YYYY-MM-DD'' TimeParseError)), d)
      | Some endDate \<Rightarrow>
          if date_less endDate startDate
          then (Inl (ValidationError ''date_range''
                  (ErrorsNew ''start_date must be before or equal to end_date'')), d)
          else
            (case (case ar_UserID req of None \<Rightarrow> Inr None
                   | Some s \<Rightarrow> (case uuid_Parse s of
                                 None \<Rightarrow> Inl (ValidationError ''user_id''
                                            (Errorf ''invalid UUID format'' InvalidUUID))
                               | Some u \<Rightarrow> Inr (Some u))) of
               Inl e \<Rightarrow> (Inl e, d)
             | Inr userIDPtr \<Rightarrow>
                 (case repo_Aggregate startDate endDate userIDPtr (ar_ServiceName req) d of
                    (Inl e, d') \<Rightarrow> (Inl (Errorf ''failed to aggregate subscriptions'' e), d')
                  | (Inr tot, d') \<Rightarrow> (Inr (AggregateResponse tot), d')))))"

section \<open>Boundary adapter: the handler of a get request\<close>

text \<open>\<^verbatim>\<open>GetSubscription\<close> of unnamed/part_001 (over \<open>svc_GetByID\<close>) and of unnamed/part_002
  (over \<open>p3_GetByID\<close>), reduced to the HTTP status they answer with.\<close>

definition h1_GetSubscription :: "string \<Rightarrow> db \<Rightarrow> nat \<times> db" where
  "h1_GetSubscription ids d =
     (case svc_GetByID ids d of
        (Inl e, d') \<Rightarrow> (500, d')
      | (Inr None, d') \<Rightarrow> (404, d')
      | (Inr (Some sub), d') \<Rightarrow> (200, d'))"

definition h2_GetSubscription :: "string \<Rightarrow> db \<Rightarrow> nat \<times> db" where
  "h2_GetSubscription ids d =
     (case p3_GetByID ids d of
        (Inl e, d') \<Rightarrow>
          (case as_ValidationError e of Some v \<Rightarrow> (400, d') | None \<Rightarrow> (500, d'))
      | (Inr None, d') \<Rightarrow> (404, d')
      | (Inr (Some sub), d') \<Rightarrow> (200, d'))"

section \<open>The operations as the specification words them\<close>

text \<open>The active interval of a subscription overlaps the window:
  \<^verbatim>\<open>start_date <= periodEnd AND (end_date IS NULL OR end_date >= periodStart)\<close>.\<close>

definition overlaps :: "date \<Rightarrow> date \<Rightarrow> Subscription \<Rightarrow> bool" where
  "overlaps periodStart periodEnd r =
     (date_le (StartDate r) periodEnd
      \<and> (case EndDate r of None \<Rightarrow> True | Some e \<Rightarrow> date_le periodStart e))"

text \<open>The subscriptions an aggregate query counts: those that overlap the window and match
  the optional filters, the service name as a case-insensitive pattern.\<close>

definition agg_selected :: "date \<Rightarrow> date \<Rightarrow> uuid option \<Rightarrow> string option \<Rightarrow> Subscription
    \<Rightarrow> bool" where
  "agg_selected periodStart periodEnd userID serviceName r =
     (overlaps periodStart periodEnd r
      \<and> (case userID of None \<Rightarrow> True | Some u \<Rightarrow> UserID r = u)
      \<and> (case serviceName of None \<Rightarrow> True | Some n \<Rightarrow> ilike (ServiceName r) n))"

definition spec_total :: "date \<Rightarrow> date \<Rightarrow> uuid option \<Rightarrow> string option \<Rightarrow> Subscription list
    \<Rightarrow> int" where
  "spec_total periodStart periodEnd userID serviceName rs =
     sum_list (map Price (filter (agg_selected periodStart periodEnd userID serviceName) rs))"

text \<open>The subscriptions a list query matches, apart from the service name.\<close>

definition list_selected :: "SubscriptionFilter \<Rightarrow> Subscription \<Rightarrow> bool" where
  "list_selected flt r =
     ((case f_UserID flt of None \<Rightarrow> True | Some u \<Rightarrow> UserID r = u)
      \<and> (case f_StartDate flt of None \<Rightarrow> True | Some sd \<Rightarrow> date_le sd (StartDate r))
      \<and> (case f_EndDate flt of None \<Rightarrow> True
          | Some ed \<Rightarrow> (case EndDate r of None \<Rightarrow> True | Some e \<Rightarrow> date_le e ed)))"

text \<open>The service-name condition of a list query: the pattern is the filter between two
  \<^verbatim>\<open>%\<close>.\<close>

definition list_name_selected :: "SubscriptionFilter \<Rightarrow> Subscription \<Rightarrow> bool" where
  "list_name_selected flt r =
     (case f_ServiceName flt of None \<Rightarrow> True
      | Some n \<Rightarrow> ilike (ServiceName r) (''%'' @ n @ ''%''))"

text \<open>\<^verbatim>\<open>OFFSET\<close> and \<^verbatim>\<open>LIMIT\<close>, each applied only when positive.\<close>

definition page :: "int \<Rightarrow> int \<Rightarrow> 'a list \<Rightarrow> 'a list" where
  "page limit offset xs =
     (let dropped = (if offset > 0 then drop (nat offset) xs else xs)
      in if limit > 0 then take (nat limit) dropped else dropped)"

text \<open>The slice a scan loop builds from the rows it reads: nil when there is none.\<close>

definition scanned :: "'a list \<Rightarrow> 'a slice" where
  "scanned xs = (if xs = [] then NilSlice else Slice xs)"

text \<open>A filter without the characters \<^verbatim>\<open>%\<close>, \<^verbatim>\<open>_\<close> and backslash, which a pattern reads
  specially.\<close>

definition plain :: "string \<Rightarrow> bool" where
  "plain n = list_all (\<lambda>c. c \<noteq> CHR ''%'' \<and> c \<noteq> CHR ''_'' \<and> c \<noteq> CHR 0x5C) n"

text \<open>Equality and containment of strings up to the case of letters.\<close>

definition equal_fold :: "string \<Rightarrow> string \<Rightarrow> bool" where
  "equal_fold s n = (map lower s = map lower n)"

fun contains_at :: "string \<Rightarrow> string \<Rightarrow> bool" where
  "contains_at [] n = (n = [])"
| "contains_at (c # t) n = (take (length n) (c # t) = n \<or> contains_at t n)"

definition contains_fold :: "string \<Rightarrow> string \<Rightarrow> bool" where
  "contains_fold s n = contains_at (map lower s) (map lower n)"

section \<open>Sample data\<close>

definition id_A :: uuid where
  "id_A = [1, 1, 1, 1, 1, 1, 1, 1, 1, 1, 1, 1, 1, 1, 1, 1]"

definition id_B :: uuid where
  "id_B = [2, 2, 2, 2, 2, 2, 2, 2, 2, 2, 2, 2, 2, 2, 2, 2]"

definition user_1 :: uuid where
  "user_1 = [17, 17, 17, 17, 17, 17, 17, 17, 17, 17, 17, 17, 17, 17, 17, 17]"

definition str_A :: string where
  "str_A = ''01010101-0101-0101-0101-010101010101''"

definition str_B :: string where
  "str_B = ''02020202-0202-0202-0202-020202020202''"

definition str_user :: string where
  "str_user = ''11111111-1111-1111-1111-111111111111''"

text \<open>Subscription A runs from 2024-01 to 2024-03, subscription B from 2024-02 with no end.\<close>

definition sub_A :: Subscription where
  "sub_A = \<lparr>ID = id_A, ServiceName = ''Netflix'', Price = 5, UserID = user_1,
     StartDate = Date 2024 1 1, EndDate = Some (Date 2024 3 1),
     CreatedAt = 100, UpdatedAt = 100\<rparr>"

definition sub_B :: Subscription where
  "sub_B = \<lparr>ID = id_B, ServiceName = ''Spotify'', Price = 7, UserID = user_1,
     StartDate = Date 2024 2 1, EndDate = None, CreatedAt = 101, UpdatedAt = 101\<rparr>"

definition db0 :: db where
  "db0 = \<lparr>rows = [], available = True, log = []\<rparr>"

definition db1 :: db where
  "db1 = \<lparr>rows = [sub_A], available = True, log = []\<rparr>"

definition db2 :: db where
  "db2 = \<lparr>rows = [sub_A, sub_B], available = True, log = []\<rparr>"

definition no_fields :: UpdateSubscriptionRequest where
  "no_fields = \<lparr>ur_ServiceName = None, ur_Price = None, ur_EndDate = None\<rparr>"

definition negative_price :: UpdateSubscriptionRequest where
  "negative_price = \<lparr>ur_ServiceName = None, ur_Price = Some (- 1), ur_EndDate = None\<rparr>"

definition clear_end :: UpdateSubscriptionRequest where
  "clear_end = \<lparr>ur_ServiceName = None, ur_Price = Some 9, ur_EndDate = Some []\<rparr>"

definition price_only :: UpdateSubscriptionRequest where
  "price_only = \<lparr>ur_ServiceName = None, ur_Price = Some 9, ur_EndDate = None\<rparr>"

definition filtered_request :: "string \<Rightarrow> string \<Rightarrow> AggregateRequest" where
  "filtered_request s e = \<lparr>ar_UserID = Some str_user, ar_ServiceName = Some ''netflix'',
     ar_StartDate = s, ar_EndDate = e\<rparr>"

definition name_filter :: "string \<Rightarrow> SubscriptionFilter" where
  "name_filter n = \<lparr>f_UserID = None, f_ServiceName = Some n, f_StartDate = None,
     f_EndDate = None, f_Limit = 10, f_Offset = 0\<rparr>"

definition create_request :: "int \<Rightarrow> string \<Rightarrow> CreateSubscriptionRequest" where
  "create_request p e = \<lparr>cr_ServiceName = ''Hulu'', cr_Price = p, cr_UserID = str_user,
     cr_StartDate = ''01-2024'', cr_EndDate = e\<rparr>"

definition window_request :: "string \<Rightarrow> string \<Rightarrow> AggregateRequest" where
  "window_request s e = \<lparr>ar_UserID = None, ar_ServiceName = None, ar_StartDate = s,
     ar_EndDate = e\<rparr>"

text \<open>A request whose service-name filter is a single backslash.\<close>

definition backslash_request :: "string \<Rightarrow> string \<Rightarrow> AggregateRequest" where
  "backslash_request s e = \<lparr>ar_UserID = None, ar_ServiceName = Some [CHR 0x5C],
     ar_StartDate = s, ar_EndDate = e\<rparr>"

text \<open>A create request with a negative price whose user id does not parse.\<close>

definition bad_user_request :: CreateSubscriptionRequest where
  "bad_user_request = \<lparr>cr_ServiceName = ''Hulu'', cr_Price = - 1, cr_UserID = ''not-a-uuid'',
     cr_StartDate = ''01-2024'', cr_EndDate = []\<rparr>"

definition from_date :: "date \<Rightarrow> SubscriptionFilter" where
  "from_date sd = \<lparr>f_UserID = None, f_ServiceName = None, f_StartDate = Some sd,
     f_EndDate = None, f_Limit = 10, f_Offset = 0\<rparr>"

section \<open>Facts about the library functions and the sample data\<close>

lemma parse_str_A: "uuid_Parse str_A = Some id_A"
  by code_simp

lemma parse_str_B: "uuid_Parse str_B = Some id_B"
  by code_simp

lemma parse_str_user: "uuid_Parse str_user = Some user_1"
  by code_simp

lemma parse_not_a_uuid: "uuid_Parse ''not-a-uuid'' = None"
  by code_simp

lemma parse_months:
  "Parse_01_2006 ''01-2024'' = Some (Date 2024 1 1)"
  "Parse_01_2006 ''02-2024'' = Some (Date 2024 2 1)"
  "Parse_01_2006 ''03-2024'' = Some (Date 2024 3 1)"
  "Parse_01_2006 ''04-2024'' = Some (Date 2024 4 1)"
  "Parse_01_2006 ''05-2024'' = Some (Date 2024 5 1)"
  "Parse_01_2006 ''12-2023'' = Some (Date 2023 12 1)"
  "Parse_01_2006 ''01-2023'' = Some (Date 2023 1 1)"
  "Parse_01_2006 ''02-2023'' = Some (Date 2023 2 1)"
  by code_simp+

lemma parse_days:
  "Parse_2006_01_02 ''2024-02-01'' = Some (Date 2024 2 1)"
  "Parse_2006_01_02 ''2024-03-01'' = Some (Date 2024 3 1)"
  "Parse_2006_01_02 ''2024-02-29'' = Some (Date 2024 2 29)"
  "Parse_2006_01_02 ''2023-01-01'' = Some (Date 2023 1 1)"
  "Parse_2006_01_02 ''2023-02-01'' = Some (Date 2023 2 1)"
  by code_simp+

lemma Parse_01_2006_Nil: "Parse_01_2006 [] = None"
  by (simp add: Parse_01_2006_def)

text \<open>\<open>date_less\<close> is a strict total order, so \<open>date_le\<close> is the matching \<open>\<le>\<close>.\<close>

lemma date_less_irrefl: "\<not> date_less a a"
  by (simp add: date_less_def)

lemma date_less_trans: "date_less a b \<Longrightarrow> date_less b c \<Longrightarrow> date_less a c"
  by (auto simp: date_less_def)

lemma date_less_total: "date_less a b \<or> a = b \<or> date_less b a"
  by (cases a; cases b) (auto simp: date_less_def)

section \<open>Facts about the store\<close>

lemma db_exec_log: "log (snd (db_exec st args d)) = log d @ [(st, args)]"
  by (simp add: db_exec_def Let_def split: sum.splits prod.splits)

lemma db_exec_error:
  "db_exec st args d = (Inl e, d') \<Longrightarrow> d' = d\<lparr>log := log d @ [(st, args)]\<rparr>"
  by (auto simp: db_exec_def Let_def split: sum.splits prod.splits if_splits)

lemma row_of_args_insert:
  "row_of_args [VUuid i, VText n, VInt p, VUuid u, VDate s, end_arg e, VTime c, VTime t]
     = Some \<lparr>ID = i, ServiceName = n, Price = p, UserID = u, StartDate = s, EndDate = e,
              CreatedAt = c, UpdatedAt = t\<rparr>"
  by (cases e) (simp_all add: row_of_args_def end_arg_def)

lemma check_row_price_neg: "Price r < 0 \<Longrightarrow> \<exists>m. check_row r = Some (PqError m)"
  by (simp add: check_row_def)

lemma check_row_end_before:
  "EndDate r = Some e \<Longrightarrow> date_less e (StartDate r) \<Longrightarrow> \<exists>m. check_row r = Some (PqError m)"
  by (simp add: check_row_def date_le_def)

text \<open>An insert the table rejects (or that finds no server) leaves only a log entry.\<close>

lemma repo_Create_rejected:
  assumes "check_row (sub\<lparr>CreatedAt := now, UpdatedAt := now\<rparr>) = Some (PqError m0)"
  shows "\<exists>m. repo_Create now sub d =
           (Inl (Errorf ''failed to create subscription'' (PqError m)),
            d\<lparr>log := log d @ [(Insert_stmt,
                 [VUuid (ID sub), VText (ServiceName sub), VInt (Price sub), VUuid (UserID sub),
                  VDate (StartDate sub), end_arg (EndDate sub), VTime now, VTime now])]\<rparr>)"
proof (cases "available d")
  case False
  then show ?thesis by (simp add: repo_Create_def Let_def db_exec_def)
next
  case True
  have "row_of_args [VUuid (ID sub), VText (ServiceName sub), VInt (Price sub),
            VUuid (UserID sub), VDate (StartDate sub), end_arg (EndDate sub), VTime now,
            VTime now] = Some (sub\<lparr>CreatedAt := now, UpdatedAt := now\<rparr>)"
    by (simp add: row_of_args_insert)
  with True assms show ?thesis by (simp add: repo_Create_def Let_def db_exec_def)
qed

lemma ToSubscription_fields:
  assumes "ToSubscription newID req = Inr sub"
  shows "ID sub = newID \<and> ServiceName sub = cr_ServiceName req \<and> Price sub = cr_Price req"
  using assms
  by (auto simp: ToSubscription_def Let_def split: option.splits if_splits)

lemma ToSubscription_dates:
  assumes "uuid_Parse (cr_UserID req) = Some u"
    and "Parse_01_2006 (cr_StartDate req) = Some s"
    and "Parse_01_2006 (cr_EndDate req) = Some e"
  shows "ToSubscription newID req =
           Inr \<lparr>ID = newID, ServiceName = cr_ServiceName req, Price = cr_Price req, UserID = u,
                 StartDate = s, EndDate = Some e, CreatedAt = 0, UpdatedAt = 0\<rparr>"
proof -
  have "cr_EndDate req \<noteq> []"
    using assms(3) by (auto simp: Parse_01_2006_Nil)
  with assms show ?thesis by (simp add: ToSubscription_def Let_def)
qed

lemma updates_empty:
  assumes "ur_ServiceName req = None" and "ur_Price req = None" and "ur_EndDate req = None"
  shows "p3_updates req = Inr [] \<and> svc_updates req = Inr []"
  using assms by (simp add: p3_updates_def svc_updates_def)

section \<open>Fetching an identifier that has no row\<close>

lemma repo_GetByID_absent:
  assumes "available d" and "uid \<notin> set (map ID (rows d))"
  shows "fst (repo_GetByID uid d) = Inr None"
proof -
  have "filter (\<lambda>r. ID r = uid) (rows d) = []"
    using assms(2) by (auto simp: filter_empty_conv)
  with assms(1) show ?thesis by (simp add: repo_GetByID_def db_exec_def Let_def)
qed

lemma svc_GetByID_absent:
  assumes "uuid_Parse ids = Some uid" and "available d" and "uid \<notin> set (map ID (rows d))"
  shows "fst (svc_GetByID ids d) = Inr None"
  using repo_GetByID_absent[OF assms(2,3)] assms(1)
  by (cases "repo_GetByID uid d") (simp add: svc_GetByID_def)

lemma p3_GetByID_absent:
  assumes "uuid_Parse ids = Some uid" and "available d" and "uid \<notin> set (map ID (rows d))"
  shows "fst (p3_GetByID ids d) = Inl (NotFoundError ids)"
  using repo_GetByID_absent[OF assms(2,3)] assms(1)
  by (cases "repo_GetByID uid d") (simp add: p3_GetByID_def)

text \<open>The second variant never returns the absent result, so the 404 branch of its handler
  cannot be reached.\<close>

lemma p3_GetByID_never_absent: "fst (p3_GetByID ids d) \<noteq> Inr None"
  by (simp add: p3_GetByID_def split: option.splits prod.splits sum.splits)

lemma h2_GetSubscription_never_404: "fst (h2_GetSubscription ids d) \<noteq> 404"
proof -
  obtain res d' where r: "p3_GetByID ids d = (res, d')"
    by (cases "p3_GetByID ids d")
  with p3_GetByID_never_absent[of ids d] have "res \<noteq> Inr None" by simp
  with r show ?thesis
    by (simp add: h2_GetSubscription_def split: sum.splits option.splits)
qed

section \<open>Evaluating the aggregate query\<close>

lemma select_rows_filter:
  "(\<And>r. r \<in> set rs \<Longrightarrow> f r = Some (g r)) \<Longrightarrow> select_rows f rs = Some (filter g rs)"
  by (induction rs) auto

lemma col_val_simps:
  "col_val r ''service_name'' = Some (VText (ServiceName r))"
  "col_val r ''user_id'' = Some (VUuid (UserID r))"
  "col_val r ''start_date'' = Some (VDate (StartDate r))"
  "col_val r ''end_date'' = Some (case EndDate r of None \<Rightarrow> VNull | Some e \<Rightarrow> VDate e)"
  by (simp_all add: col_val_def)

lemma eval_user_eq:
  "param args i = Some (VUuid u) \<Longrightarrow>
   eval_cond args r (Cmp ''user_id'' OpEq i) = Some (UserID r = u)"
  by (simp add: col_val_simps)

lemma eval_name_ilike:
  "param args i = Some (VText p) \<Longrightarrow> like_wf p \<Longrightarrow>
   eval_cond args r (Cmp ''service_name'' OpILike i) = Some (ilike (ServiceName r) p)"
  by (simp add: col_val_simps)

lemma eval_start_le:
  "param args i = Some (VDate x) \<Longrightarrow>
   eval_cond args r (Cmp ''start_date'' OpLe i) = Some (date_le (StartDate r) x)"
  by (simp add: col_val_simps)

lemma eval_start_ge:
  "param args i = Some (VDate x) \<Longrightarrow>
   eval_cond args r (Cmp ''start_date'' OpGe i) = Some (date_le x (StartDate r))"
  by (simp add: col_val_simps)

lemma eval_end_ge:
  "param args i = Some (VDate x) \<Longrightarrow>
   eval_cond args r (NullOr ''end_date'' (Cmp ''end_date'' OpGe i))
     = Some (case EndDate r of None \<Rightarrow> True | Some e \<Rightarrow> date_le x e)"
  by (cases "EndDate r") (simp_all add: col_val_simps)

lemma eval_end_le:
  "param args i = Some (VDate x) \<Longrightarrow>
   eval_cond args r (NullOr ''end_date'' (Cmp ''end_date'' OpLe i))
     = Some (case EndDate r of None \<Rightarrow> True | Some e \<Rightarrow> date_le e x)"
  by (cases "EndDate r") (simp_all add: col_val_simps)

lemmas eval_conds = eval_user_eq eval_name_ilike eval_start_le eval_start_ge eval_end_ge eval_end_le

lemma placeholders_agg:
  "placeholders_ok [2, Suc 0] [a, b]"
  "placeholders_ok [2, Suc 0, 3] [a, b, c]"
  "placeholders_ok [2, Suc 0, 3, 4] [a, b, c, e]"
  by (auto simp: placeholders_ok_def)

lemma db_exec_sum:
  assumes "available d"
    and "placeholders_ok (concat (map cond_params ks)) args"
    and "\<And>r. eval_where args ks r = Some (g r)"
  shows "db_exec (SelectSum_stmt ks) args d
     = (Inr (Total (sum_list (map Price (filter g (rows d))))),
        d\<lparr>log := log d @ [(SelectSum_stmt ks, args)]\<rparr>)"
  using assms by (simp add: db_exec_def Let_def select_rows_filter)

lemma Aggregate_query_sound:
  assumes "case n of None \<Rightarrow> True | Some p \<Rightarrow> like_wf p"
  shows "\<exists>ks args. Aggregate_query ps pe u n = (SelectSum_stmt ks, args)
           \<and> placeholders_ok (concat (map cond_params ks)) args
           \<and> (\<forall>r. eval_where args ks r = Some (agg_selected ps pe u n r))"
  using assms
  by (cases u; cases n)
     (simp_all add: Aggregate_query_def placeholders_agg eval_conds param_def
        agg_selected_def overlaps_def del: eval_cond.simps)

lemma repo_Aggregate_total:
  assumes "available d" and "case n of None \<Rightarrow> True | Some p \<Rightarrow> like_wf p"
  shows "repo_Aggregate ps pe u n d
           = (Inr (spec_total ps pe u n (rows d)),
              d\<lparr>log := log d @ [Aggregate_query ps pe u n]\<rparr>)"
proof -
  from Aggregate_query_sound[OF assms(2)] obtain ks args
    where q: "Aggregate_query ps pe u n = (SelectSum_stmt ks, args)"
      and pl: "placeholders_ok (concat (map cond_params ks)) args"
      and ev: "\<And>r. eval_where args ks r = Some (agg_selected ps pe u n r)"
    by blast
  show ?thesis
    by (simp add: repo_Aggregate_def q db_exec_sum[OF assms(1) pl ev] spec_total_def)
qed

lemma parsed_user:
  assumes "rel_option (\<lambda>s u. uuid_Parse s = Some u) userID fu"
  shows "(case userID of None \<Rightarrow> Inr None
          | Some s \<Rightarrow> (case uuid_Parse s of None \<Rightarrow> Inl e | Some u \<Rightarrow> Inr (Some u))) = Inr fu"
  using assms by (cases userID; cases fu) simp_all

lemma p3_Aggregate_valid:
  assumes "Parse_2006_01_02 (ar_StartDate req) = Some ps"
    and "Parse_2006_01_02 (ar_EndDate req) = Some pe"
    and "date_le ps pe"
    and "rel_option (\<lambda>s u. uuid_Parse s = Some u) (ar_UserID req) fu"
    and "available d"
    and "case ar_ServiceName req of None \<Rightarrow> True | Some p \<Rightarrow> like_wf p"
  shows "p3_Aggregate req d =
     (Inr (AggregateResponse (spec_total ps pe fu (ar_ServiceName req) (rows d))),
      d\<lparr>log := log d @ [Aggregate_query ps pe fu (ar_ServiceName req)]\<rparr>)"
  using assms(1-3)
  by (simp add: p3_Aggregate_def date_le_def parsed_user[OF assms(4)]
       repo_Aggregate_total[OF assms(5,6)])

lemma svc_Aggregate_valid:
  assumes "Parse_01_2006 (ar_StartDate req) = Some ps"
    and "Parse_01_2006 (ar_EndDate req) = Some pe"
    and "date_le ps pe"
    and "rel_option (\<lambda>s u. uuid_Parse s = Some u) (ar_UserID req) fu"
    and "available d"
    and "case ar_ServiceName req of None \<Rightarrow> True | Some p \<Rightarrow> like_wf p"
  shows "svc_Aggregate req d =
     (Inr (AggregateResponse (spec_total ps pe fu (ar_ServiceName req) (rows d))),
      d\<lparr>log := log d @ [Aggregate_query ps pe fu (ar_ServiceName req)]\<rparr>)"
  using assms(1-3)
  by (simp add: svc_Aggregate_def date_le_def parsed_user[OF assms(4)]
       repo_Aggregate_total[OF assms(5,6)])

lemma spec_total_none:
  "(\<And>r. r \<in> set rs \<Longrightarrow> \<not> overlaps ps pe r) \<Longrightarrow> spec_total ps pe u n rs = 0"
proof -
  assume h: "\<And>r. r \<in> set rs \<Longrightarrow> \<not> overlaps ps pe r"
  have "filter (agg_selected ps pe u n) rs = []"
    using h by (auto simp: filter_empty_conv agg_selected_def)
  then show ?thesis by (simp add: spec_total_def)
qed

section \<open>Building and running an update\<close>

lemma set_loop_closed:
  "set_loop es sc as i
     = (sc @ zip (map fst es) [i..<i + length es], as @ map snd es, i + length es)"
proof (induction es arbitrary: sc as i)
  case Nil
  then show ?case by simp
next
  case (Cons x es)
  obtain f v where x: "x = (f, v)" by (cases x)
  have "[i..<i + Suc (length es)] = i # [Suc i..<Suc i + length es]"
    by (subst upt_rec) simp
  with Cons x show ?case by (simp del: upt_Suc)
qed

lemma Update_query_closed:
  "Update_query ord now uid upd =
     (Update_stmt (zip (map fst (ord upd)) [1..<Suc (length (ord upd))]
                     @ [(''updated_at'', Suc (length (ord upd)))])
        (Suc (Suc (length (ord upd)))),
      map snd (ord upd) @ [VTime now, VUuid uid])"
  by (simp add: Update_query_def set_loop_closed del: upt_Suc)

lemma Update_query_columns:
  "Update_query ord now uid upd = (Update_stmt cs w, args) \<Longrightarrow>
   map fst cs = map fst (ord upd) @ [''updated_at'']"
  by (auto simp: Update_query_closed map_fst_zip simp del: upt_Suc)

text \<open>The clause of a field carries the placeholder of that field's value.\<close>

lemma Update_query_value:
  assumes "Update_query ord now uid upd = (Update_stmt cs w, args)"
    and "(f, v) \<in> set (ord upd)"
  shows "\<exists>k. (f, k) \<in> set cs \<and> param args k = Some v"
proof -
  let ?es = "ord upd"
  from assms(2) obtain j where j: "j < length ?es" "?es ! j = (f, v)"
    by (auto simp: in_set_conv_nth)
  have cs: "cs = zip (map fst ?es) [1..<Suc (length ?es)] @ [(''updated_at'', Suc (length ?es))]"
    and args: "args = map snd ?es @ [VTime now, VUuid uid]"
    using assms(1) by (auto simp: Update_query_closed simp del: upt_Suc)
  have "zip (map fst ?es) [1..<Suc (length ?es)] ! j = (f, Suc j)"
    using j by (simp add: nth_zip del: upt_Suc)
  moreover have "j < length (zip (map fst ?es) [1..<Suc (length ?es)])"
    using j by simp
  ultimately have "(f, Suc j) \<in> set (zip (map fst ?es) [1..<Suc (length ?es)])"
    by (metis nth_mem)
  then have "(f, Suc j) \<in> set cs" by (simp add: cs)
  moreover have "param args (Suc j) = Some v"
    using j by (simp add: param_def args nth_append)
  ultimately show ?thesis by blast
qed

lemma set_col_other:
  assumes "set_col c v r = Some r'"
  shows "(c \<noteq> ''end_date'' \<longrightarrow> EndDate r' = EndDate r) \<and> (c \<noteq> ''id'' \<longrightarrow> ID r' = ID r)"
  using assms by (auto simp: set_col_def split: if_splits sqlval.splits)

lemma apply_sets_keeps:
  assumes "apply_sets cs args r = Some r'"
  shows "(''end_date'' \<notin> set (map fst cs) \<longrightarrow> EndDate r' = EndDate r)
       \<and> (''id'' \<notin> set (map fst cs) \<longrightarrow> ID r' = ID r)"
  using assms
proof (induction cs arbitrary: r)
  case Nil
  then show ?case by simp
next
  case (Cons x cs)
  obtain c i where x: "x = (c, i)" by (cases x)
  from Cons.prems x obtain v r1 where v: "param args i = Some v"
    and r1: "set_col c v r = Some r1" and rest: "apply_sets cs args r1 = Some r'"
    by (auto split: option.splits)
  from Cons.IH[OF rest] set_col_other[OF r1] x show ?case by auto
qed

lemma set_col_end_null: "set_col ''end_date'' VNull r = Some r1 \<Longrightarrow> EndDate r1 = None"
  by (auto simp: set_col_def)

lemma apply_sets_end_null:
  assumes "apply_sets cs args r = Some r'"
    and "distinct (map fst cs)"
    and "(''end_date'', k) \<in> set cs"
    and "param args k = Some VNull"
  shows "EndDate r' = None"
  using assms
proof (induction cs arbitrary: r)
  case Nil
  then show ?case by simp
next
  case (Cons x cs)
  obtain c i where x: "x = (c, i)" by (cases x)
  from Cons.prems(1) x obtain v r1 where v: "param args i = Some v"
    and r1: "set_col c v r = Some r1" and rest: "apply_sets cs args r1 = Some r'"
    by (auto split: option.splits)
  show ?case
  proof (cases "c = ''end_date''")
    case True
    with Cons.prems(2,3) x have "i = k"
      by (auto simp: image_iff) 
    with v Cons.prems(4) have "v = VNull" by simp
    with r1 True have "EndDate r1 = None" by (simp add: set_col_end_null)
    moreover have "''end_date'' \<notin> set (map fst cs)"
      using Cons.prems(2) x True by simp
    ultimately show ?thesis using apply_sets_keeps[OF rest] by simp
  next
    case False
    with Cons.prems(2,3) x have "(''end_date'', k) \<in> set cs" "distinct (map fst cs)"
      by auto
    from Cons.IH[OF rest this(2) this(1) Cons.prems(4)] show ?thesis .
  qed
qed

text \<open>What an UPDATE does to each row.\<close>

lemma update_rows_rel:
  "update_rows cs args i rs = Inr rs' \<Longrightarrow>
   list_all2 (\<lambda>r r'. (ID r = i \<longrightarrow> apply_sets cs args r = Some r') \<and> (ID r \<noteq> i \<longrightarrow> r' = r))
     rs rs'"
proof (induction rs arbitrary: rs')
  case Nil
  then show ?case by simp
next
  case (Cons r rs)
  then show ?case
    by (auto split: if_splits option.splits sum.splits)
qed


lemma updates_keys_p3:
  assumes "p3_updates req = Inr upd"
  shows "distinct (map fst upd)
       \<and> set (map fst upd) \<subseteq> {''service_name'', ''price'', ''end_date''}
       \<and> (ur_EndDate req = None \<longrightarrow> ''end_date'' \<notin> set (map fst upd))
       \<and> (ur_EndDate req = Some [] \<longrightarrow> (''end_date'', VNull) \<in> set upd)"
  using assms
  by (cases "ur_ServiceName req"; cases "ur_Price req"; cases "ur_EndDate req")
     (auto simp: p3_updates_def Let_def split: if_splits option.splits)

lemma updates_keys_svc:
  assumes "svc_updates req = Inr upd"
  shows "distinct (map fst upd)
       \<and> set (map fst upd) \<subseteq> {''service_name'', ''price'', ''end_date''}
       \<and> (ur_EndDate req = None \<longrightarrow> ''end_date'' \<notin> set (map fst upd))
       \<and> (ur_EndDate req = Some [] \<longrightarrow> (''end_date'', VNull) \<in> set upd)"
  using assms
  by (cases "ur_ServiceName req"; cases "ur_Price req"; cases "ur_EndDate req")
     (auto simp: svc_updates_def Let_def split: if_splits option.splits)

lemma db_exec_available: "available (snd (db_exec st args d)) = available d"
  by (simp add: db_exec_def Let_def split: sum.splits prod.splits)

lemma db_exec_Update:
  assumes "db_exec (Update_stmt cs w) args d = (res, d')"
  shows "log d' = log d @ [(Update_stmt cs w, args)] \<and> available d' = available d
       \<and> (rows d' = rows d
           \<or> (\<exists>uid. param args w = Some (VUuid uid) \<and> distinct (map fst cs)
                 \<and> update_rows cs args uid (rows d) = Inr (rows d')))
       \<and> (\<forall>n. res = Inr (Affected n) \<longrightarrow>
             available d \<and> distinct (map fst cs)
             \<and> (\<exists>uid. param args w = Some (VUuid uid)
                   \<and> update_rows cs args uid (rows d) = Inr (rows d')
                   \<and> n = length (filter (\<lambda>r. ID r = uid) (rows d))))"
  using assms
  by (auto simp: db_exec_def Let_def split: if_splits option.splits sqlval.splits sum.splits)


text \<open>An update either leaves the store alone or hands exactly one UPDATE to it.\<close>

lemma repo_Update_outcome:
  assumes "repo_Update ord now uid upd d = (res, d')"
  shows "(d' = d \<and> upd = [])
       \<or> (\<exists>cs w args r. Update_query ord now uid upd = (Update_stmt cs w, args)
             \<and> db_exec (Update_stmt cs w) args d = (r, d')
             \<and> (res = Inr () \<longrightarrow> (\<exists>n. r = Inr (Affected n) \<and> n \<noteq> 0)))"
proof (cases "length upd = 0")
  case True
  with assms show ?thesis by (simp add: repo_Update_def)
next
  case False
  obtain cs w args where q: "Update_query ord now uid upd = (Update_stmt cs w, args)"
    by (simp add: Update_query_closed del: upt_Suc)
  obtain r d1 where e: "db_exec (Update_stmt cs w) args d = (r, d1)"
    by (cases "db_exec (Update_stmt cs w) args d")
  from assms False q e have "d1 = d'" "res = Inr () \<longrightarrow> (\<exists>n. r = Inr (Affected n) \<and> n \<noteq> 0)"
    by (auto simp: repo_Update_def split: sum.splits reply.splits if_splits)
  with q e show ?thesis by blast
qed

lemma p3_Update_outcome:
  assumes "p3_Update ord now ids req d = (res, d')"
  shows "(d' = d \<and> res \<noteq> Inr ())
       \<or> (\<exists>uid upd cs w args r. uuid_Parse ids = Some uid \<and> p3_updates req = Inr upd
             \<and> Update_query ord now uid upd = (Update_stmt cs w, args)
             \<and> db_exec (Update_stmt cs w) args d = (r, d')
             \<and> (res = Inr () \<longrightarrow> (\<exists>n. r = Inr (Affected n) \<and> n \<noteq> 0)))"
proof (cases "uuid_Parse ids")
  case None
  with assms show ?thesis by (auto simp: p3_Update_def)
next
  case (Some uid)
  show ?thesis
  proof (cases "p3_updates req")
    case (Inl e)
    with assms Some show ?thesis by (auto simp: p3_Update_def)
  next
    case (Inr upd)
    show ?thesis
    proof (cases "length upd = 0")
      case True
      with assms Some Inr show ?thesis by (auto simp: p3_Update_def)
    next
      case False
      obtain r0 d0 where r0: "repo_Update ord now uid upd d = (r0, d0)"
        by (cases "repo_Update ord now uid upd d")
      with assms Some Inr False have "d0 = d'" "res = Inr () \<longrightarrow> r0 = Inr ()"
        by (auto simp: p3_Update_def split: sum.splits if_splits)
      moreover have "upd \<noteq> []" using False by simp
      ultimately show ?thesis using repo_Update_outcome[OF r0] Some Inr by blast
    qed
  qed
qed

lemma svc_Update_outcome:
  assumes "svc_Update ord now ids req d = (res, d')"
  shows "(d' = d \<and> (res = Inr () \<longrightarrow> svc_updates req = Inr []))
       \<or> (\<exists>uid upd cs w args r. uuid_Parse ids = Some uid \<and> svc_updates req = Inr upd
             \<and> Update_query ord now uid upd = (Update_stmt cs w, args)
             \<and> db_exec (Update_stmt cs w) args d = (r, d')
             \<and> (res = Inr () \<longrightarrow> (\<exists>n. r = Inr (Affected n) \<and> n \<noteq> 0)))"
proof (cases "uuid_Parse ids")
  case None
  with assms show ?thesis by (auto simp: svc_Update_def)
next
  case (Some uid)
  show ?thesis
  proof (cases "svc_updates req")
    case (Inl e)
    with assms Some show ?thesis by (auto simp: svc_Update_def)
  next
    case (Inr upd)
    obtain r0 d0 where r0: "repo_Update ord now uid upd d = (r0, d0)"
      by (cases "repo_Update ord now uid upd d")
    with assms Some Inr have "d0 = d'" "res = Inr () \<longrightarrow> r0 = Inr ()"
      by (auto simp: svc_Update_def split: sum.splits if_splits)
    with repo_Update_outcome[OF r0] Some Inr show ?thesis by blast
  qed
qed

lemma query_columns_allowed:
  assumes "\<And>m. mset (ord m) = mset m"
    and "set (map fst upd) \<subseteq> {''service_name'', ''price'', ''end_date''}"
    and "Update_query ord now uid upd = (Update_stmt cs w, args)"
  shows "set (map fst cs) \<subseteq> {''service_name'', ''price'', ''end_date'', ''updated_at''}"
proof -
  have "set (ord upd) = set upd"
    using assms(1) by (metis set_mset_mset)
  then have "set (map fst (ord upd)) = set (map fst upd)" by simp
  with assms(2) Update_query_columns[OF assms(3)] show ?thesis by auto
qed

lemma Update_query_where:
  "Update_query ord now uid upd = (Update_stmt cs w, args) \<Longrightarrow> param args w = Some (VUuid uid)"
  by (auto simp: Update_query_closed param_def nth_append simp del: upt_Suc)

lemma updated_ids:
  assumes "list_all2 (\<lambda>r r'. (ID r = i \<longrightarrow> apply_sets cs args r = Some r') \<and> (ID r \<noteq> i \<longrightarrow> r' = r))
             rs rs'"
    and "''id'' \<notin> set (map fst cs)"
  shows "map ID rs' = map ID rs"
  using assms
proof (induction rule: list_all2_induct)
  case Nil
  then show ?case by simp
next
  case (Cons r rs r' rs')
  have "ID r' = ID r"
    using Cons.hyps(1) Cons.prems apply_sets_keeps[of cs args r r'] by (cases "ID r = i") auto
  with Cons show ?case by simp
qed

lemma updated_end_kept:
  assumes "list_all2 (\<lambda>r r'. (ID r = i \<longrightarrow> apply_sets cs args r = Some r') \<and> (ID r \<noteq> i \<longrightarrow> r' = r))
             rs rs'"
    and "''end_date'' \<notin> set (map fst cs)"
  shows "map EndDate rs' = map EndDate rs"
  using assms
proof (induction rule: list_all2_induct)
  case Nil
  then show ?case by simp
next
  case (Cons r rs r' rs')
  have "EndDate r' = EndDate r"
    using Cons.hyps(1) Cons.prems apply_sets_keeps[of cs args r r'] by (cases "ID r = i") auto
  with Cons show ?case by simp
qed

lemma updated_end_null:
  assumes "list_all2 (\<lambda>r r'. (ID r = i \<longrightarrow> apply_sets cs args r = Some r') \<and> (ID r \<noteq> i \<longrightarrow> r' = r))
             rs rs'"
    and "''id'' \<notin> set (map fst cs)" and "distinct (map fst cs)"
    and "(''end_date'', k) \<in> set cs" and "param args k = Some VNull"
  shows "\<forall>r' \<in> set rs'. ID r' = i \<longrightarrow> EndDate r' = None"
  using assms
proof (induction rule: list_all2_induct)
  case Nil
  then show ?case by simp
next
  case (Cons r rs r' rs')
  have "ID r' = i \<longrightarrow> EndDate r' = None"
  proof (cases "ID r = i")
    case True
    with Cons.hyps(1) have "apply_sets cs args r = Some r'" by simp
    from apply_sets_end_null[OF this Cons.prems(2,3,4)] show ?thesis by simp
  next
    case False
    with Cons.hyps(1) show ?thesis by simp
  qed
  with Cons show ?case by simp
qed

lemma repo_GetByID_found:
  assumes "available d" and "filter (\<lambda>r. ID r = uid) (rows d) = r # rest"
  shows "fst (repo_GetByID uid d) = Inr (Some r)"
  using assms by (simp add: repo_GetByID_def db_exec_def Let_def)

text \<open>After an update that set \<^verbatim>\<open>end_date\<close> to null and matched a row, the row fetched by
  the same id has no end date.\<close>

lemma cleared_then_fetched:
  assumes perm: "\<And>m. mset (ord m) = mset m"
    and keys: "set (map fst upd) \<subseteq> {''service_name'', ''price'', ''end_date''}"
    and null: "(''end_date'', VNull) \<in> set upd"
    and q: "Update_query ord now uid upd = (Update_stmt cs w, args)"
    and e: "db_exec (Update_stmt cs w) args d = (Inr (Affected n), d')"
    and n: "n \<noteq> 0"
  shows "\<exists>sub. fst (repo_GetByID uid d') = Inr (Some sub) \<and> EndDate sub = None"
proof -
  from db_exec_Update[OF e] Update_query_where[OF q]
  have av: "available d'" and dist: "distinct (map fst cs)"
    and upd: "update_rows cs args uid (rows d) = Inr (rows d')"
    and cnt: "n = length (filter (\<lambda>r. ID r = uid) (rows d))"
    by auto
  have cols: "set (map fst cs) \<subseteq> {''service_name'', ''price'', ''end_date'', ''updated_at''}"
    by (rule query_columns_allowed[OF perm keys q])
  then have noid: "''id'' \<notin> set (map fst cs)" by auto
  have "set (ord upd) = set upd"
    using perm by (metis set_mset_mset)
  with null have "(''end_date'', VNull) \<in> set (ord upd)" by simp
  from Update_query_value[OF q this] obtain k
    where k: "(''end_date'', k) \<in> set cs" "param args k = Some VNull" by blast
  note rel = update_rows_rel[OF upd]
  have ids: "map ID (rows d') = map ID (rows d)"
    by (rule updated_ids[OF rel noid])
  have nul: "\<forall>r' \<in> set (rows d'). ID r' = uid \<longrightarrow> EndDate r' = None"
    by (rule updated_end_null[OF rel noid dist k])
  from cnt n have "uid \<in> set (map ID (rows d))"
    by (auto simp: filter_empty_conv)
  with ids have "uid \<in> set (map ID (rows d'))" by simp
  then have "filter (\<lambda>r. ID r = uid) (rows d') \<noteq> []"
    by (auto simp: filter_empty_conv)
  then obtain sub rest where f: "filter (\<lambda>r. ID r = uid) (rows d') = sub # rest"
    by (cases "filter (\<lambda>r. ID r = uid) (rows d')") auto
  then have "sub \<in> set (filter (\<lambda>r. ID r = uid) (rows d'))" by simp
  then have "sub \<in> set (rows d')" "ID sub = uid" by auto
  with nul have "EndDate sub = None" by simp
  with repo_GetByID_found[OF av f] show ?thesis by blast
qed

lemma map_pair_zip: "map (\<lambda>r. (f r, g r)) xs = zip (map f xs) (map g xs)"
  by (induction xs) simp_all

text \<open>An update whose set has no \<^verbatim>\<open>end_date\<close> keeps every stored end date.\<close>

lemma absent_end_kept:
  assumes perm: "\<And>m. mset (ord m) = mset m"
    and keys: "set (map fst upd) \<subseteq> {''service_name'', ''price'', ''end_date''}"
    and absent: "''end_date'' \<notin> set (map fst upd)"
    and q: "Update_query ord now uid upd = (Update_stmt cs w, args)"
    and e: "db_exec (Update_stmt cs w) args d = (r, d')"
  shows "map (\<lambda>r. (ID r, EndDate r)) (rows d') = map (\<lambda>r. (ID r, EndDate r)) (rows d)"
proof -
  have "set (ord upd) = set upd"
    using perm by (metis set_mset_mset)
  then have "set (map fst (ord upd)) = set (map fst upd)" by simp
  with keys absent Update_query_columns[OF q]
  have noid: "''id'' \<notin> set (map fst cs)" and noend: "''end_date'' \<notin> set (map fst cs)"
    by auto
  from db_exec_Update[OF e] Update_query_where[OF q]
  have "rows d' = rows d \<or> update_rows cs args uid (rows d) = Inr (rows d')"
    by auto
  then show ?thesis
  proof
    assume "rows d' = rows d"
    then show ?thesis by simp
  next
    assume "update_rows cs args uid (rows d) = Inr (rows d')"
    note rel = update_rows_rel[OF this]
    have "map ID (rows d') = map ID (rows d)" "map EndDate (rows d') = map EndDate (rows d)"
      by (rule updated_ids[OF rel noid], rule updated_end_kept[OF rel noend])
    then show ?thesis by (simp add: map_pair_zip)
  qed
qed


lemma GetByID_found:
  assumes "fst (repo_GetByID uid d) = Inr (Some sub)" and "uuid_Parse ids = Some uid"
  shows "fst (p3_GetByID ids d) = Inr (Some sub) \<and> fst (svc_GetByID ids d) = Inr (Some sub)"
  using assms by (cases "repo_GetByID uid d") (simp add: p3_GetByID_def svc_GetByID_def)

lemma clear_end_runs:
  "p3_Update rev 200 str_A clear_end db1 = (Inr (), snd (p3_Update rev 200 str_A clear_end db1))"
  "svc_Update rev 200 str_A clear_end db1 = (Inr (), snd (svc_Update rev 200 str_A clear_end db1))"
  "p3_updates clear_end = Inr [(''price'', VInt 9), (''end_date'', VNull)]"
  "svc_updates clear_end = Inr [(''price'', VInt 9), (''end_date'', VNull)]"
  "p3_updates price_only = Inr [(''price'', VInt 9)]"
  "svc_updates price_only = Inr [(''price'', VInt 9)]"
  by code_simp+

section \<open>Evaluating the list query\<close>

lemma placeholders_list:
  "placeholders_ok [] []"
  "placeholders_ok [Suc 0] [a]"
  "placeholders_ok [Suc 0, 2] [a, b]"
  "placeholders_ok [Suc 0, 2, 3] [a, b, c]"
  "placeholders_ok [Suc 0, 2, 3, 4] [a, b, c, e]"
  "placeholders_ok [Suc 0, 2, 3, 4, 5] [a, b, c, e, f]"
  "placeholders_ok [Suc 0, 2, 3, 4, 5, 6] [a, b, c, e, f, g]"
  by (auto simp: placeholders_ok_def)

text \<open>A pattern that ends with \<^verbatim>\<open>%\<close> never ends with a dangling escape character: a
  backslash at the end of the filter quotes the \<^verbatim>\<open>%\<close> the list query appends.\<close>

lemma like_wf_wrapped: "like_wf (n @ ''%'')"
proof (induction n rule: like_wf.induct)
  case 1
  show ?case by simp
next
  case (2 p ps)
  show ?case
  proof (cases ps)
    case Nil
    then show ?thesis by simp
  next
    case (Cons q qs)
    with 2 show ?thesis by simp
  qed
qed

lemma List_query_sound:
  "\<exists>ks lim off args. List_query flt = (SelectList_stmt ks lim off, args)
           \<and> placeholders_ok (concat (map cond_params ks)
                 @ (case lim of None \<Rightarrow> [] | Some i \<Rightarrow> [i])
                 @ (case off of None \<Rightarrow> [] | Some i \<Rightarrow> [i])) args
           \<and> (\<forall>r. eval_where args ks r = Some (list_selected flt r \<and> list_name_selected flt r))
           \<and> count_param args off
                = Some (if f_Offset flt > 0 then Some (nat (f_Offset flt)) else None)
           \<and> count_param args lim
                = Some (if f_Limit flt > 0 then Some (nat (f_Limit flt)) else None)"
  apply (cases "f_UserID flt"; cases "f_ServiceName flt"; cases "f_StartDate flt";
      cases "f_EndDate flt"; cases "f_Limit flt > 0"; cases "f_Offset flt > 0")
  apply (simp_all add: List_query_def placeholders_list eval_conds param_def count_param_def
        list_selected_def list_name_selected_def like_wf_wrapped del: eval_cond.simps)
  apply (auto simp: placeholders_ok_def)
  done

lemma scan_loop:
  "fold (\<lambda>sub acc. append_slice acc sub) rs acc = (if rs = [] then acc else Slice (elems acc @ rs))"
  by (induction rs arbitrary: acc) (auto simp: append_slice_def)

lemma scan_loop_nil: "fold (\<lambda>sub acc. append_slice acc sub) rs NilSlice = scanned rs"
  by (simp add: scan_loop scanned_def)

lemma db_exec_list:
  assumes "available d"
    and "placeholders_ok (concat (map cond_params ks)
             @ (case lim of None \<Rightarrow> [] | Some i \<Rightarrow> [i])
             @ (case off of None \<Rightarrow> [] | Some i \<Rightarrow> [i])) args"
    and "\<And>r. eval_where args ks r = Some (g r)"
    and "count_param args off = Some (if 0 < offset then Some (nat offset) else None)"
    and "count_param args lim = Some (if 0 < limit then Some (nat limit) else None)"
  shows "db_exec (SelectList_stmt ks lim off) args d
     = (Inr (Rows (page limit offset (order_by_start_desc (filter g (rows d))))),
        d\<lparr>log := log d @ [(SelectList_stmt ks lim off, args)]\<rparr>)"
  using assms by (simp add: db_exec_def Let_def select_rows_filter page_def)

lemma repo_List_result:
  assumes "available d"
  shows "repo_List flt d
     = (Inr (scanned (page (f_Limit flt) (f_Offset flt)
              (order_by_start_desc
                (filter (\<lambda>r. list_selected flt r \<and> list_name_selected flt r) (rows d))))),
        d\<lparr>log := log d @ [List_query flt]\<rparr>)"
proof -
  from List_query_sound[of flt] obtain ks lim off args
    where q: "List_query flt = (SelectList_stmt ks lim off, args)"
      and pl: "placeholders_ok (concat (map cond_params ks)
                 @ (case lim of None \<Rightarrow> [] | Some i \<Rightarrow> [i])
                 @ (case off of None \<Rightarrow> [] | Some i \<Rightarrow> [i])) args"
      and ev: "\<And>r. eval_where args ks r = Some (list_selected flt r \<and> list_name_selected flt r)"
      and co: "count_param args off
                = Some (if f_Offset flt > 0 then Some (nat (f_Offset flt)) else None)"
      and cl: "count_param args lim
                = Some (if f_Limit flt > 0 then Some (nat (f_Limit flt)) else None)"
    by blast
  show ?thesis
    by (simp add: repo_List_def q db_exec_list[OF assms pl ev co cl] scan_loop_nil)
qed

lemma parsed_date:
  assumes "rel_option (\<lambda>s x. parse s = Some x) str fd"
  shows "(case str of None \<Rightarrow> Inr None
          | Some s \<Rightarrow> (case parse s of None \<Rightarrow> Inl e | Some x \<Rightarrow> Inr (Some x))) = Inr fd"
  using assms by (cases str; cases fd) simp_all

lemma p3_List_valid:
  assumes "rel_option (\<lambda>s u. uuid_Parse s = Some u) userID fu"
    and "rel_option (\<lambda>s x. Parse_2006_01_02 s = Some x) startDate fs"
    and "rel_option (\<lambda>s x. Parse_2006_01_02 s = Some x) endDate fe"
  shows "p3_List userID serviceName startDate endDate limit offset d =
     (case repo_List \<lparr>f_UserID = fu, f_ServiceName = serviceName, f_StartDate = fs,
                       f_EndDate = fe, f_Limit = limit, f_Offset = offset\<rparr> d of
        (Inl e, d') \<Rightarrow> (Inl (Errorf ''failed to list subscriptions'' e), d')
      | (Inr subscriptions, d') \<Rightarrow> (Inr subscriptions, d'))"
  by (simp add: p3_List_def parsed_user[OF assms(1)] parsed_date[OF assms(2)]
        parsed_date[OF assms(3)])

lemma svc_List_valid:
  assumes "rel_option (\<lambda>s u. uuid_Parse s = Some u) userID fu"
    and "rel_option (\<lambda>s x. Parse_01_2006 s = Some x) startDate fs"
    and "rel_option (\<lambda>s x. Parse_01_2006 s = Some x) endDate fe"
  shows "svc_List userID serviceName startDate endDate limit offset d =
     (case repo_List \<lparr>f_UserID = fu, f_ServiceName = serviceName, f_StartDate = fs,
                       f_EndDate = fe, f_Limit = limit, f_Offset = offset\<rparr> d of
        (Inl e, d') \<Rightarrow> (Inl e, d')
      | (Inr subscriptions, d') \<Rightarrow> (Inr subscriptions, d'))"
  by (simp add: svc_List_def parsed_user[OF assms(1)] parsed_date[OF assms(2)]
        parsed_date[OF assms(3)])

lemma page_Nil: "page limit offset [] = []"
  by (simp add: page_def)

lemma order_Nil: "order_by_start_desc [] = []"
  by (simp add: order_by_start_desc_def)

section \<open>Patterns without special characters\<close>

lemma lower_meta:
  "(lower c = CHR ''%'') = (c = CHR ''%'')"
  "(lower c = CHR ''_'') = (c = CHR ''_'')"
  "(lower c = CHR 0x5C) = (c = CHR 0x5C)"
proof -
  have m: "65 \<le> (of_char c :: nat) \<Longrightarrow> of_char c \<le> (90 :: nat) \<Longrightarrow>
      (of_char (char_of (of_char c + 32 :: nat)) :: nat) = of_char c + 32"
    by simp
  show "(lower c = CHR ''%'') = (c = CHR ''%'')"
    using m by (auto simp: lower_def Let_def dest!: arg_cong[where f = "of_char :: char \<Rightarrow> nat"])
  show "(lower c = CHR ''_'') = (c = CHR ''_'')"
    using m by (auto simp: lower_def Let_def dest!: arg_cong[where f = "of_char :: char \<Rightarrow> nat"])
  show "(lower c = CHR 0x5C) = (c = CHR 0x5C)"
    using m by (auto simp: lower_def Let_def dest!: arg_cong[where f = "of_char :: char \<Rightarrow> nat"])
qed

lemma plain_lower: "plain (map lower n) = plain n"
  by (induction n) (simp_all add: plain_def lower_meta)

lemma plain_wf: "plain n \<Longrightarrow> like_wf n"
  by (induction n) (simp_all add: plain_def)

lemma like_plain: "plain p \<Longrightarrow> like_match p s = (s = p)"
proof (induction p arbitrary: s)
  case Nil
  then show ?case by simp
next
  case (Cons a p)
  then show ?case by (cases s) (auto simp: plain_def)
qed

lemma like_percent_all: "like_match ''%'' s"
  by (induction s) simp_all

lemma like_prefix: "plain p \<Longrightarrow> like_match (p @ ''%'') s = (take (length p) s = p)"
proof (induction p arbitrary: s)
  case Nil
  then show ?case by (simp add: like_percent_all)
next
  case (Cons a p)
  then show ?case by (cases s) (auto simp: plain_def)
qed

lemma like_contains: "plain p \<Longrightarrow> like_match (CHR ''%'' # p @ ''%'') s = contains_at s p"
proof (induction s)
  case Nil
  then show ?case using like_prefix[of p "[]"] by auto
next
  case (Cons c t)
  then show ?case using like_prefix[of p "c # t"] by simp
qed

lemma ilike_plain: "plain n \<Longrightarrow> ilike s n = equal_fold s n"
  by (simp add: ilike_def equal_fold_def like_plain plain_lower)

lemma lower_percent: "lower CHR ''%'' = CHR ''%''"
  by (simp add: lower_meta)

lemma ilike_wrapped: "plain n \<Longrightarrow> ilike s (CHR ''%'' # n @ ''%'') = contains_fold s n"
  by (simp add: ilike_def contains_fold_def lower_percent like_contains plain_lower)

text \<open>\<open>contains_at\<close> is containment as a contiguous run.\<close>

lemma contains_at_iff: "contains_at s n = (\<exists>pre post. s = pre @ n @ post)"
proof (induction s)
  case Nil
  then show ?case by auto
next
  case (Cons c t)
  have "(take (length n) (c # t) = n) = (\<exists>post. c # t = n @ post)"
    by (metis append_eq_conv_conj append_take_drop_id)
  moreover have "(\<exists>pre post. c # t = pre @ n @ post)
      = ((\<exists>post. c # t = n @ post) \<or> (\<exists>pre post. t = pre @ n @ post))"
  proof
    assume "\<exists>pre post. c # t = pre @ n @ post"
    then obtain pre post where e: "c # t = pre @ n @ post" by blast
    show "(\<exists>post. c # t = n @ post) \<or> (\<exists>pre post. t = pre @ n @ post)"
    proof (cases pre)
      case Nil
      with e show ?thesis by auto
    next
      case (Cons a pre')
      with e have "t = pre' @ n @ post" by simp
      then show ?thesis by blast
    qed
  next
    assume "(\<exists>post. c # t = n @ post) \<or> (\<exists>pre post. t = pre @ n @ post)"
    then show "\<exists>pre post. c # t = pre @ n @ post"
    proof
      assume "\<exists>post. c # t = n @ post"
      then obtain post where "c # t = [] @ n @ post" by auto
      then show ?thesis by blast
    next
      assume "\<exists>pre post. t = pre @ n @ post"
      then obtain pre post where "c # t = (c # pre) @ n @ post" by auto
      then show ?thesis by blast
    qed
  qed
  ultimately show ?case using Cons by simp
qed

section \<open>Values on the sample data\<close>

lemma filtered_totals:
  "spec_total (Date 2024 2 1) (Date 2024 2 29) (Some user_1) (Some ''netflix'') (rows db2) = 5"
  "spec_total (Date 2024 2 1) (Date 2024 2 1) (Some user_1) (Some ''netflix'') (rows db2) = 5"
  "date_le (Date 2024 2 1) (Date 2024 2 29)" "date_le (Date 2024 2 1) (Date 2024 2 1)"
  "date_le (Date 2023 1 1) (Date 2023 2 1)"
  "list_all (\<lambda>r. \<not> overlaps (Date 2023 1 1) (Date 2023 2 1) r) (rows db2)"
  "like_wf ''netflix''" "available db2"
  by code_simp+

lemma clear_end_log:
  "log (snd (p3_Update rev 200 str_A clear_end db1)) =
     [(Update_stmt [(''end_date'', 1), (''price'', 2), (''updated_at'', 3)] 4,
       [VNull, VInt 9, VTime 200, VUuid id_A])]"
  "log (snd (svc_Update rev 200 str_A clear_end db1)) =
     [(Update_stmt [(''end_date'', 1), (''price'', 2), (''updated_at'', 3)] 4,
       [VNull, VInt 9, VTime 200, VUuid id_A])]"
  "log db1 = []"
  by code_simp+

lemma no_match_values:
  "list_all (\<lambda>r. \<not> (list_selected (name_filter [CHR 0x5C]) r
      \<and> list_name_selected (name_filter [CHR 0x5C]) r)) (rows db2)"
  "list_all (\<lambda>r. \<not> (list_selected (from_date (Date 2024 2 2)) r
      \<and> list_name_selected (from_date (Date 2024 2 2)) r)) (rows db2)"
  "list_all (\<lambda>r. \<not> (list_selected (from_date (Date 2024 3 1)) r
      \<and> list_name_selected (from_date (Date 2024 3 1)) r)) (rows db2)"
  "Parse_2006_01_02 ''2024-02-02'' = Some (Date 2024 2 2)"
  "\<not> like_wf [CHR 0x5C]"
  by code_simp+

lemma name_filter_values:
  "plain ''flix''" "plain ''netflix''"
  "sum_list (map Price (filter
      (\<lambda>r. overlaps (Date 2024 1 1) (Date 2024 12 1) r
           \<and> (case None of None \<Rightarrow> True | Some x \<Rightarrow> UserID r = x)
           \<and> equal_fold (ServiceName r) ''flix'') (rows db2))) = 0"
  "sum_list (map Price (filter
      (\<lambda>r. overlaps (Date 2024 1 1) (Date 2024 12 1) r
           \<and> (case None of None \<Rightarrow> True | Some x \<Rightarrow> UserID r = x)
           \<and> equal_fold (ServiceName r) ''netflix'') (rows db2))) = 5"
  "scanned (page (f_Limit (name_filter ''flix'')) (f_Offset (name_filter ''flix''))
     (order_by_start_desc (filter
        (\<lambda>r. list_selected (name_filter ''flix'') r \<and> contains_fold (ServiceName r) ''flix'')
        (rows db2)))) = Slice [sub_A]"
  by code_simp+

lemma pattern_filter_values:
  "like_wf ''e_flix''" "\<not> plain ''e_flix''"
  "sum_list (map Price (filter
      (\<lambda>r. overlaps (Date 2024 1 1) (Date 2024 12 1) r
           \<and> (case None of None \<Rightarrow> True | Some x \<Rightarrow> UserID r = x)
           \<and> ilike (ServiceName r) ''e_flix'') (rows db2))) = 0"
  "scanned (page (f_Limit (name_filter ''e_flix'')) (f_Offset (name_filter ''e_flix''))
     (order_by_start_desc (filter
        (\<lambda>r. list_selected (name_filter ''e_flix'') r
             \<and> ilike (ServiceName r) (''%'' @ ''e_flix'' @ ''%''))
        (rows db2)))) = Slice [sub_A]"
  by code_simp+

text \<open>The example of the specification: over 2024-02 both A and B count with their full
  price; over 2024-04 to 2024-05 subscription B, which has no end date, still counts.\<close>

lemma aggregate_spec_example:
  "fst (svc_Aggregate (window_request ''02-2024'' ''02-2024'') db2) = Inr (AggregateResponse 12)"
  "fst (svc_Aggregate (window_request ''04-2024'' ''05-2024'') db2) = Inr (AggregateResponse 7)"
  "fst (p3_Aggregate (window_request ''2024-02-01'' ''2024-02-29'') db2) = Inr (AggregateResponse 12)"
  by code_simp+

section \<open>The claims\<close>

text \<open>
  Claim C1, amended.  For an aggregate query with a valid window and optional filters, on a
  store that answers, whose service-name filter (when given) does not end with a dangling
  escape character, the total is the sum of the prices of exactly the stored subscriptions
  that overlap the window (\<open>start_date \<le> periodEnd\<close> and end date null or \<open>\<ge> periodStart\<close>) and
  match the filters (the user id by equality, the service name as a case-insensitive
  pattern), each with its full price, and it is 0, not an error, when no subscription
  overlaps.  Both variants of the service, each with its own date layout; the store is not
  changed.
\<close>

theorem C1_aggregate_total:
  assumes "available d"
    and "Parse_2006_01_02 (ar_StartDate req) = Some ps"
    and "Parse_2006_01_02 (ar_EndDate req) = Some pe"
    and "date_le ps pe"
    and "rel_option (\<lambda>s u. uuid_Parse s = Some u) (ar_UserID req) fu"
    and "case ar_ServiceName req of None \<Rightarrow> True | Some p \<Rightarrow> like_wf p"
    and "Parse_01_2006 (ar_StartDate req') = Some ps'"
    and "Parse_01_2006 (ar_EndDate req') = Some pe'"
    and "date_le ps' pe'"
    and "rel_option (\<lambda>s u. uuid_Parse s = Some u) (ar_UserID req') fu'"
    and "case ar_ServiceName req' of None \<Rightarrow> True | Some p \<Rightarrow> like_wf p"
  shows "fst (p3_Aggregate req d) =
           Inr (AggregateResponse (spec_total ps pe fu (ar_ServiceName req) (rows d)))
       \<and> rows (snd (p3_Aggregate req d)) = rows d
       \<and> ((\<forall>r \<in> set (rows d). \<not> overlaps ps pe r)
            \<longrightarrow> fst (p3_Aggregate req d) = Inr (AggregateResponse 0))
       \<and> fst (svc_Aggregate req' d) =
           Inr (AggregateResponse (spec_total ps' pe' fu' (ar_ServiceName req') (rows d)))
       \<and> rows (snd (svc_Aggregate req' d)) = rows d
       \<and> ((\<forall>r \<in> set (rows d). \<not> overlaps ps' pe' r)
            \<longrightarrow> fst (svc_Aggregate req' d) = Inr (AggregateResponse 0))"
  by (simp add: p3_Aggregate_valid[OF assms(2-5,1,6)] svc_Aggregate_valid[OF assms(7-10,1,11)]
        spec_total_none)

theorem C1_aggregate_total_witness:
  "available db2
   \<and> Parse_2006_01_02 (ar_StartDate (filtered_request ''2024-02-01'' ''2024-02-29''))
       = Some (Date 2024 2 1)
   \<and> Parse_2006_01_02 (ar_EndDate (filtered_request ''2024-02-01'' ''2024-02-29''))
       = Some (Date 2024 2 29)
   \<and> date_le (Date 2024 2 1) (Date 2024 2 29)
   \<and> uuid_Parse str_user = Some user_1 \<and> like_wf ''netflix''
   \<and> fst (p3_Aggregate (filtered_request ''2024-02-01'' ''2024-02-29'') db2)
       = Inr (AggregateResponse 5)
   \<and> fst (svc_Aggregate (filtered_request ''02-2024'' ''02-2024'') db2)
       = Inr (AggregateResponse 5)
   \<and> rows (snd (p3_Aggregate (filtered_request ''2024-02-01'' ''2024-02-29'') db2)) = rows db2
   \<and> fst (p3_Aggregate (filtered_request ''2023-01-01'' ''2023-02-01'') db2)
       = Inr (AggregateResponse 0)
   \<and> fst (svc_Aggregate (filtered_request ''01-2023'' ''02-2023'') db2)
       = Inr (AggregateResponse 0)"
proof -
  have u: "rel_option (\<lambda>s u. uuid_Parse s = Some u) (ar_UserID (filtered_request s e))
      (Some user_1)" for s e
    by (simp add: filtered_request_def parse_str_user)
  have n: "case ar_ServiceName (filtered_request s e) of None \<Rightarrow> True | Some p \<Rightarrow> like_wf p"
    for s e
    by (simp add: filtered_request_def filtered_totals)
  have p1: "Parse_2006_01_02 (ar_StartDate (filtered_request ''2024-02-01'' ''2024-02-29''))
      = Some (Date 2024 2 1)"
    and p2: "Parse_2006_01_02 (ar_EndDate (filtered_request ''2024-02-01'' ''2024-02-29''))
      = Some (Date 2024 2 29)"
    and p3: "Parse_01_2006 (ar_StartDate (filtered_request ''02-2024'' ''02-2024''))
      = Some (Date 2024 2 1)"
    and p4: "Parse_01_2006 (ar_EndDate (filtered_request ''02-2024'' ''02-2024''))
      = Some (Date 2024 2 1)"
    and q1: "Parse_2006_01_02 (ar_StartDate (filtered_request ''2023-01-01'' ''2023-02-01''))
      = Some (Date 2023 1 1)"
    and q2: "Parse_2006_01_02 (ar_EndDate (filtered_request ''2023-01-01'' ''2023-02-01''))
      = Some (Date 2023 2 1)"
    and q3: "Parse_01_2006 (ar_StartDate (filtered_request ''01-2023'' ''02-2023''))
      = Some (Date 2023 1 1)"
    and q4: "Parse_01_2006 (ar_EndDate (filtered_request ''01-2023'' ''02-2023''))
      = Some (Date 2023 2 1)"
    by (simp_all add: filtered_request_def parse_days parse_months)
  have none: "\<forall>r \<in> set (rows db2). \<not> overlaps (Date 2023 1 1) (Date 2023 2 1) r"
    using filtered_totals(6) by (simp add: list_all_iff)
  note a = C1_aggregate_total[OF filtered_totals(8) p1 p2 filtered_totals(3) u n
      p3 p4 filtered_totals(4) u n]
  note b = C1_aggregate_total[OF filtered_totals(8) q1 q2 filtered_totals(5) u n
      q3 q4 filtered_totals(5) u n]
  have a1: "fst (p3_Aggregate (filtered_request ''2024-02-01'' ''2024-02-29'') db2)
       = Inr (AggregateResponse 5)"
    using a filtered_totals(1) by (simp add: filtered_request_def)
  have a2: "fst (svc_Aggregate (filtered_request ''02-2024'' ''02-2024'') db2)
       = Inr (AggregateResponse 5)"
    using a filtered_totals(2) by (simp add: filtered_request_def)
  have a3: "rows (snd (p3_Aggregate (filtered_request ''2024-02-01'' ''2024-02-29'') db2))
       = rows db2"
    using a by simp
  have b1: "fst (p3_Aggregate (filtered_request ''2023-01-01'' ''2023-02-01'') db2)
       = Inr (AggregateResponse 0)"
    using b none by blast
  have b2: "fst (svc_Aggregate (filtered_request ''01-2023'' ''02-2023'') db2)
       = Inr (AggregateResponse 0)"
    using b none by blast
  from p1 p2 a1 a2 a3 b1 b2 filtered_totals parse_str_user show ?thesis by simp
qed

text \<open>Claim C1 as stated fails for a service-name filter that is a single backslash: the
  window is valid and both stored subscriptions overlap it, but the store rejects the pattern
  and the call returns an error in place of a total.\<close>

theorem C1_counterexample:
  "Parse_2006_01_02 (ar_StartDate (backslash_request ''2024-02-01'' ''2024-02-29''))
       = Some (Date 2024 2 1)
   \<and> Parse_2006_01_02 (ar_EndDate (backslash_request ''2024-02-01'' ''2024-02-29''))
       = Some (Date 2024 2 29)
   \<and> Parse_01_2006 (ar_StartDate (backslash_request ''02-2024'' ''02-2024''))
       = Some (Date 2024 2 1)
   \<and> Parse_01_2006 (ar_EndDate (backslash_request ''02-2024'' ''02-2024''))
       = Some (Date 2024 2 1)
   \<and> date_le (Date 2024 2 1) (Date 2024 2 29) \<and> date_le (Date 2024 2 1) (Date 2024 2 1)
   \<and> available db2
   \<and> list_all (overlaps (Date 2024 2 1) (Date 2024 2 1)) (rows db2)
   \<and> fst (p3_Aggregate (backslash_request ''2024-02-01'' ''2024-02-29'') db2) =
       Inl (Errorf ''failed to aggregate subscriptions''
             (Errorf ''failed to aggregate subscriptions'' (PqError ''invalid input'')))
   \<and> fst (svc_Aggregate (backslash_request ''02-2024'' ''02-2024'') db2) =
       Inl (Errorf ''failed to aggregate subscriptions'' (PqError ''invalid input''))"
  by code_simp

text \<open>
  Claim C2, amended.  An update whose request sets no field and whose id is a valid UUID
  performs no storage operation and leaves the store as it was.  The variant of
  unnamed/part_003 returns \<open>ErrNoUpdates\<close>, which is not a validation error; the variant of
  internal/service/subscription.go returns success.
\<close>

theorem C2_no_fields_update:
  assumes "uuid_Parse ids = Some u"
    and "ur_ServiceName req = None" and "ur_Price req = None" and "ur_EndDate req = None"
  shows "p3_Update ord now ids req d = (Inl ErrNoUpdates, d)
       \<and> as_ValidationError ErrNoUpdates = None
       \<and> svc_Update ord now ids req d = (Inr (), d)"
  using assms by (simp add: p3_Update_def svc_Update_def updates_empty repo_Update_def)

theorem C2_no_fields_update_witness:
  "uuid_Parse str_A = Some id_A
   \<and> ur_ServiceName no_fields = None \<and> ur_Price no_fields = None \<and> ur_EndDate no_fields = None
   \<and> p3_Update rev 200 str_A no_fields db1 = (Inl ErrNoUpdates, db1)
   \<and> svc_Update rev 200 str_A no_fields db1 = (Inr (), db1)"
proof -
  have h: "ur_ServiceName no_fields = None" "ur_Price no_fields = None"
    "ur_EndDate no_fields = None"
    by (simp_all add: no_fields_def)
  show ?thesis
    using C2_no_fields_update[OF parse_str_A h, of rev 200 db1] h parse_str_A by simp
qed

text \<open>Claim C2 as stated fails on internal/service/subscription.go: the call succeeds instead
  of returning the no-updates condition.\<close>

theorem C2_counterexample:
  "uuid_Parse str_A = Some id_A
   \<and> svc_Update (\<lambda>m. m) 200 str_A
        \<lparr>ur_ServiceName = None, ur_Price = None, ur_EndDate = None\<rparr> db1 = (Inr (), db1)"
  by (simp add: parse_str_A svc_Update_def svc_updates_def repo_Update_def)

text \<open>
  Claim C3, amended.  A create request whose end date parses to a date strictly earlier than
  its start date, and whose user id and price are acceptable, passes validation: the INSERT is
  handed to the store, the table rejects it (or the server does not answer), and the call fails
  with a storage error that is not a validation error.  No row is stored.
\<close>

theorem C3_end_before_start:
  assumes "uuid_Parse (cr_UserID req) = Some u"
    and "Parse_01_2006 (cr_StartDate req) = Some s"
    and "Parse_01_2006 (cr_EndDate req) = Some e"
    and "date_less e s"
    and "0 \<le> cr_Price req"
  shows "\<exists>m. p3_Create newID now req d =
           (Inl (Errorf ''failed to create subscription''
                  (Errorf ''failed to create subscription'' (PqError m))),
            d\<lparr>log := log d @ [(Insert_stmt,
                 [VUuid newID, VText (cr_ServiceName req), VInt (cr_Price req), VUuid u,
                  VDate s, VDate e, VTime now, VTime now])]\<rparr>)
         \<and> svc_Create newID now req d =
           (Inl (Errorf ''failed to create subscription'' (PqError m)),
            d\<lparr>log := log d @ [(Insert_stmt,
                 [VUuid newID, VText (cr_ServiceName req), VInt (cr_Price req), VUuid u,
                  VDate s, VDate e, VTime now, VTime now])]\<rparr>)
         \<and> as_ValidationError (Errorf ''failed to create subscription''
                  (Errorf ''failed to create subscription'' (PqError m))) = None"
proof -
  let ?sub = "\<lparr>ID = newID, ServiceName = cr_ServiceName req, Price = cr_Price req,
                UserID = u, StartDate = s, EndDate = Some e, CreatedAt = 0, UpdatedAt = 0\<rparr>"
  have conv: "ToSubscription newID req = Inr ?sub"
    by (rule ToSubscription_dates[OF assms(1-3)])
  have "\<exists>m0. check_row (?sub\<lparr>CreatedAt := now, UpdatedAt := now\<rparr>) = Some (PqError m0)"
    using assms(4) by (intro check_row_end_before[where e = e]) simp_all
  then obtain m0
    where "check_row (?sub\<lparr>CreatedAt := now, UpdatedAt := now\<rparr>) = Some (PqError m0)" ..
  from repo_Create_rejected[OF this, of d] obtain m where
    "repo_Create now ?sub d =
       (Inl (Errorf ''failed to create subscription'' (PqError m)),
        d\<lparr>log := log d @ [(Insert_stmt,
             [VUuid newID, VText (cr_ServiceName req), VInt (cr_Price req), VUuid u,
              VDate s, VDate e, VTime now, VTime now])]\<rparr>)"
    by (auto simp: end_arg_def)
  with conv assms(5) show ?thesis
    by (intro exI[where x = m]) (simp add: p3_Create_def svc_Create_def)
qed

theorem C3_end_before_start_witness:
  "uuid_Parse (cr_UserID (create_request 5 ''12-2023'')) = Some user_1
   \<and> Parse_01_2006 (cr_StartDate (create_request 5 ''12-2023'')) = Some (Date 2024 1 1)
   \<and> Parse_01_2006 (cr_EndDate (create_request 5 ''12-2023'')) = Some (Date 2023 12 1)
   \<and> date_less (Date 2023 12 1) (Date 2024 1 1)
   \<and> (\<exists>m. svc_Create id_B 300 (create_request 5 ''12-2023'') db1 =
           (Inl (Errorf ''failed to create subscription'' (PqError m)),
            db1\<lparr>log := log db1 @ [(Insert_stmt,
                 [VUuid id_B, VText ''Hulu'', VInt 5, VUuid user_1,
                  VDate (Date 2024 1 1), VDate (Date 2023 12 1), VTime 300, VTime 300])]\<rparr>))"
proof -
  have h1: "uuid_Parse (cr_UserID (create_request 5 ''12-2023'')) = Some user_1"
    by (simp add: create_request_def parse_str_user)
  have h2: "Parse_01_2006 (cr_StartDate (create_request 5 ''12-2023'')) = Some (Date 2024 1 1)"
    by (simp add: create_request_def parse_months)
  have h3: "Parse_01_2006 (cr_EndDate (create_request 5 ''12-2023'')) = Some (Date 2023 12 1)"
    by (simp add: create_request_def parse_months)
  have h4: "date_less (Date 2023 12 1) (Date 2024 1 1)"
    by (simp add: date_less_def)
  have h5: "0 \<le> cr_Price (create_request 5 ''12-2023'')"
    by (simp add: create_request_def)
  from C3_end_before_start[OF h1 h2 h3 h4 h5, of id_B 300 db1]
  have "\<exists>m. svc_Create id_B 300 (create_request 5 ''12-2023'') db1 =
           (Inl (Errorf ''failed to create subscription'' (PqError m)),
            db1\<lparr>log := log db1 @ [(Insert_stmt,
                 [VUuid id_B, VText ''Hulu'', VInt 5, VUuid user_1,
                  VDate (Date 2024 1 1), VDate (Date 2023 12 1), VTime 300, VTime 300])]\<rparr>)"
    by (auto simp: create_request_def)
  with h1 h2 h3 h4 show ?thesis by blast
qed

text \<open>Claim C3 as stated fails: the request below has its end date (2023-12) before its start
  date (2024-01); the INSERT reaches the store and the error is the violated check constraint,
  in which no \<open>ValidationError\<close> is found.\<close>

theorem C3_counterexample:
  "p3_Create id_B 300 (create_request 5 ''12-2023'') db1 =
     (Inl (Errorf ''failed to create subscription''
            (Errorf ''failed to create subscription''
              (PqError ''violates check constraint subscriptions_check''))),
      db1\<lparr>log := [(Insert_stmt,
           [VUuid id_B, VText ''Hulu'', VInt 5, VUuid user_1,
            VDate (Date 2024 1 1), VDate (Date 2023 12 1), VTime 300, VTime 300])]\<rparr>)
   \<and> as_ValidationError (Errorf ''failed to create subscription''
            (Errorf ''failed to create subscription''
              (PqError ''violates check constraint subscriptions_check''))) = None"
  by code_simp

text \<open>
  Claim C4.  A get with a valid UUID that matches no stored subscription is to return the
  absent result.  The repository and the service of internal/service/subscription.go do so;
  the service of unnamed/part_003 returns \<open>NotFoundError\<close>, and its handler, whose branch for
  the absent result answers 404, answers 500.  Evaluated on a store that holds subscription A
  only, asked for the identifier of B.
\<close>

theorem C4_get_absent:
  "uuid_Parse str_B = Some id_B
   \<and> id_B \<notin> set (map ID (rows db1))
   \<and> fst (repo_GetByID id_B db1) = Inr None
   \<and> fst (svc_GetByID str_B db1) = Inr None
   \<and> fst (h1_GetSubscription str_B db1) = 404
   \<and> fst (p3_GetByID str_B db1) = Inl (NotFoundError str_B)
   \<and> fst (h2_GetSubscription str_B db1) = 500"
  by code_simp

text \<open>
  Claim C5, amended.  In unnamed/part_003 every create with a price below 0, whatever its
  other fields, and every update with a valid id that supplies a price below 0, fail with a
  validation error tagged \<open>price\<close> and the store untouched.  In
  internal/service/subscription.go there is no such check: a create with a price below 0
  whose other fields convert hands the INSERT to the store and fails with a storage error.
\<close>

theorem C5_negative_price:
  "(cr_Price req < 0 \<longrightarrow>
      p3_Create newID now req d =
        (Inl (ValidationError ''price'' (ErrorsNew ''price cannot be negative'')), d))
   \<and> (uuid_Parse ids = Some u \<and> ur_Price ureq = Some p \<and> p < 0 \<longrightarrow>
      p3_Update ord now ids ureq d =
        (Inl (ValidationError ''price'' (ErrorsNew ''price cannot be negative'')), d))
   \<and> (cr_Price req' < 0 \<and> ToSubscription newID' req' = Inr sub \<longrightarrow>
      (\<exists>m. svc_Create newID' now req' d =
             (Inl (Errorf ''failed to create subscription'' (PqError m)),
              d\<lparr>log := log d @ [(Insert_stmt,
                   [VUuid (ID sub), VText (ServiceName sub), VInt (Price sub),
                    VUuid (UserID sub), VDate (StartDate sub), end_arg (EndDate sub),
                    VTime now, VTime now])]\<rparr>)))"
proof (intro conjI impI)
  assume "cr_Price req < 0"
  then show "p3_Create newID now req d =
        (Inl (ValidationError ''price'' (ErrorsNew ''price cannot be negative'')), d)"
    by (simp add: p3_Create_def)
next
  assume "uuid_Parse ids = Some u \<and> ur_Price ureq = Some p \<and> p < 0"
  then show "p3_Update ord now ids ureq d =
        (Inl (ValidationError ''price'' (ErrorsNew ''price cannot be negative'')), d)"
    by (simp add: p3_Update_def p3_updates_def)
next
  assume h: "cr_Price req' < 0 \<and> ToSubscription newID' req' = Inr sub"
  then have conv: "ToSubscription newID' req' = Inr sub" by simp
  have "Price sub < 0"
    using ToSubscription_fields[OF conv] h by simp
  then have "\<exists>m0. check_row (sub\<lparr>CreatedAt := now, UpdatedAt := now\<rparr>) = Some (PqError m0)"
    by (intro check_row_price_neg) simp
  then obtain m0
    where "check_row (sub\<lparr>CreatedAt := now, UpdatedAt := now\<rparr>) = Some (PqError m0)" ..
  from repo_Create_rejected[OF this, of d] obtain m where
    "repo_Create now sub d =
       (Inl (Errorf ''failed to create subscription'' (PqError m)),
        d\<lparr>log := log d @ [(Insert_stmt,
             [VUuid (ID sub), VText (ServiceName sub), VInt (Price sub), VUuid (UserID sub),
              VDate (StartDate sub), end_arg (EndDate sub), VTime now, VTime now])]\<rparr>)"
    by blast
  with conv show "\<exists>m. svc_Create newID' now req' d =
             (Inl (Errorf ''failed to create subscription'' (PqError m)),
              d\<lparr>log := log d @ [(Insert_stmt,
                   [VUuid (ID sub), VText (ServiceName sub), VInt (Price sub),
                    VUuid (UserID sub), VDate (StartDate sub), end_arg (EndDate sub),
                    VTime now, VTime now])]\<rparr>)"
    by (simp add: svc_Create_def)
qed

theorem C5_negative_price_witness:
  "cr_Price bad_user_request < 0
   \<and> ToSubscription id_B bad_user_request = Inl InvalidUUID
   \<and> p3_Create id_B 300 bad_user_request db1 =
       (Inl (ValidationError ''price'' (ErrorsNew ''price cannot be negative'')), db1)
   \<and> uuid_Parse str_A = Some id_A \<and> ur_Price negative_price = Some (- 1)
   \<and> p3_Update rev 300 str_A negative_price db1 =
       (Inl (ValidationError ''price'' (ErrorsNew ''price cannot be negative'')), db1)
   \<and> cr_Price (create_request (- 1) []) < 0
   \<and> ToSubscription id_B (create_request (- 1) []) =
       Inr \<lparr>ID = id_B, ServiceName = ''Hulu'', Price = - 1, UserID = user_1,
             StartDate = Date 2024 1 1, EndDate = None, CreatedAt = 0, UpdatedAt = 0\<rparr>
   \<and> (\<exists>m. svc_Create id_B 300 (create_request (- 1) []) db1 =
         (Inl (Errorf ''failed to create subscription'' (PqError m)),
          db1\<lparr>log := log db1 @ [(Insert_stmt,
               [VUuid id_B, VText ''Hulu'', VInt (- 1), VUuid user_1, VDate (Date 2024 1 1),
                VNull, VTime 300, VTime 300])]\<rparr>))"
proof -
  have h1: "cr_Price bad_user_request < 0"
    by (simp add: bad_user_request_def)
  have h2: "ToSubscription id_B bad_user_request = Inl InvalidUUID"
    by (simp add: ToSubscription_def bad_user_request_def parse_not_a_uuid)
  have h3: "ur_Price negative_price = Some (- 1)"
    by (simp add: negative_price_def)
  have h4: "cr_Price (create_request (- 1) []) < 0"
    by (simp add: create_request_def)
  have h5: "ToSubscription id_B (create_request (- 1) []) =
      Inr \<lparr>ID = id_B, ServiceName = ''Hulu'', Price = - 1, UserID = user_1,
            StartDate = Date 2024 1 1, EndDate = None, CreatedAt = 0, UpdatedAt = 0\<rparr>"
    by (simp add: ToSubscription_def create_request_def parse_str_user parse_months)
  note c = C5_negative_price[where req = bad_user_request and newID = id_B and now = 300
      and d = db1 and ids = str_A and u = id_A and ureq = negative_price and p = "- 1"
      and ord = rev and req' = "create_request (- 1) []" and newID' = id_B
      and sub = "\<lparr>ID = id_B, ServiceName = ''Hulu'', Price = - 1, UserID = user_1,
            StartDate = Date 2024 1 1, EndDate = None, CreatedAt = 0, UpdatedAt = 0\<rparr>"]
  have a1: "p3_Create id_B 300 bad_user_request db1 =
       (Inl (ValidationError ''price'' (ErrorsNew ''price cannot be negative'')), db1)"
    using c h1 by blast
  have a2: "p3_Update rev 300 str_A negative_price db1 =
       (Inl (ValidationError ''price'' (ErrorsNew ''price cannot be negative'')), db1)"
    using c parse_str_A h3 by simp
  have a3: "\<exists>m. svc_Create id_B 300 (create_request (- 1) []) db1 =
         (Inl (Errorf ''failed to create subscription'' (PqError m)),
          db1\<lparr>log := log db1 @ [(Insert_stmt,
               [VUuid id_B, VText ''Hulu'', VInt (- 1), VUuid user_1, VDate (Date 2024 1 1),
                VNull, VTime 300, VTime 300])]\<rparr>)"
    using c h4 h5 by (simp add: end_arg_def)
  from h1 h2 h3 h4 h5 a1 a2 a3 parse_str_A show ?thesis by blast
qed

text \<open>Claim C5 as stated fails twice.  In internal/service/subscription.go a create with price
  \<open>- 1\<close> reaches the store and fails with a storage error; in unnamed/part_003 an update with
  price \<open>- 1\<close> and a malformed id fails with a validation error tagged \<open>id\<close>.\<close>

theorem C5_counterexample:
  "svc_Create id_B 300 (create_request (- 1) []) db1 =
     (Inl (Errorf ''failed to create subscription''
            (PqError ''violates check constraint subscriptions_price_check'')),
      db1\<lparr>log := [(Insert_stmt,
           [VUuid id_B, VText ''Hulu'', VInt (- 1), VUuid user_1,
            VDate (Date 2024 1 1), VNull, VTime 300, VTime 300])]\<rparr>)
   \<and> p3_Update rev 300 ''not-a-uuid'' negative_price db1 =
       (Inl (ValidationError ''id'' (Errorf ''invalid UUID format'' InvalidUUID)), db1)"
  by code_simp

text \<open>
  Claim C6.  With the empty string as end date the update set maps \<open>end_date\<close> to null, and
  after an update that succeeded the subscription fetched by the same id has no end date;
  with the end-date field absent the update set has no \<open>end_date\<close> and every stored end date
  stays as it was, whatever the outcome of the update.
\<close>

theorem C6_end_date_sentinel:
  assumes "\<And>m. mset (ord m) = mset m"
  shows "(ur_EndDate req = Some [] \<longrightarrow>
            (\<forall>upd. p3_updates req = Inr upd \<longrightarrow> map_of upd ''end_date'' = Some VNull)
          \<and> (\<forall>upd. svc_updates req = Inr upd \<longrightarrow> map_of upd ''end_date'' = Some VNull)
          \<and> (\<forall>d'. p3_Update ord now ids req d = (Inr (), d') \<longrightarrow>
                (\<exists>sub. fst (p3_GetByID ids d') = Inr (Some sub) \<and> EndDate sub = None))
          \<and> (\<forall>d'. svc_Update ord now ids req d = (Inr (), d') \<longrightarrow>
                (\<exists>sub. fst (svc_GetByID ids d') = Inr (Some sub) \<and> EndDate sub = None)))
       \<and> (ur_EndDate req' = None \<longrightarrow>
            (\<forall>upd. p3_updates req' = Inr upd \<longrightarrow> map_of upd ''end_date'' = None)
          \<and> (\<forall>upd. svc_updates req' = Inr upd \<longrightarrow> map_of upd ''end_date'' = None)
          \<and> map (\<lambda>r. (ID r, EndDate r)) (rows (snd (p3_Update ord now ids req' d)))
              = map (\<lambda>r. (ID r, EndDate r)) (rows d)
          \<and> map (\<lambda>r. (ID r, EndDate r)) (rows (snd (svc_Update ord now ids req' d)))
              = map (\<lambda>r. (ID r, EndDate r)) (rows d))"
proof (intro conjI impI allI)
  fix upd assume "ur_EndDate req = Some []" "p3_updates req = Inr upd"
  with updates_keys_p3[of req upd] show "map_of upd ''end_date'' = Some VNull"
    by (simp add: map_of_is_SomeI)
next
  fix upd assume "ur_EndDate req = Some []" "svc_updates req = Inr upd"
  with updates_keys_svc[of req upd] show "map_of upd ''end_date'' = Some VNull"
    by (simp add: map_of_is_SomeI)
next
  fix d' assume s: "ur_EndDate req = Some []" and r: "p3_Update ord now ids req d = (Inr (), d')"
  from p3_Update_outcome[OF r] obtain uid upd cs w args n
    where p: "uuid_Parse ids = Some uid" and u: "p3_updates req = Inr upd"
      and q: "Update_query ord now uid upd = (Update_stmt cs w, args)"
      and e: "db_exec (Update_stmt cs w) args d = (Inr (Affected n), d')" and n: "n \<noteq> 0"
    by auto
  from updates_keys_p3[OF u] s
  have "set (map fst upd) \<subseteq> {''service_name'', ''price'', ''end_date''}"
    "(''end_date'', VNull) \<in> set upd" by simp_all
  from cleared_then_fetched[OF assms this q e n] GetByID_found[OF _ p]
  show "\<exists>sub. fst (p3_GetByID ids d') = Inr (Some sub) \<and> EndDate sub = None"
    by blast
next
  fix d' assume s: "ur_EndDate req = Some []" and r: "svc_Update ord now ids req d = (Inr (), d')"
  have ne: "svc_updates req \<noteq> Inr []"
    using updates_keys_svc[of req "[]"] s by auto
  from svc_Update_outcome[OF r] ne obtain uid upd cs w args n
    where p: "uuid_Parse ids = Some uid" and u: "svc_updates req = Inr upd"
      and q: "Update_query ord now uid upd = (Update_stmt cs w, args)"
      and e: "db_exec (Update_stmt cs w) args d = (Inr (Affected n), d')" and n: "n \<noteq> 0"
    by auto
  from updates_keys_svc[OF u] s
  have "set (map fst upd) \<subseteq> {''service_name'', ''price'', ''end_date''}"
    "(''end_date'', VNull) \<in> set upd" by simp_all
  from cleared_then_fetched[OF assms this q e n] GetByID_found[OF _ p]
  show "\<exists>sub. fst (svc_GetByID ids d') = Inr (Some sub) \<and> EndDate sub = None"
    by blast
next
  fix upd assume "ur_EndDate req' = None" "p3_updates req' = Inr upd"
  with updates_keys_p3[of req' upd] show "map_of upd ''end_date'' = None"
    by (simp add: map_of_eq_None_iff)
next
  fix upd assume "ur_EndDate req' = None" "svc_updates req' = Inr upd"
  with updates_keys_svc[of req' upd] show "map_of upd ''end_date'' = None"
    by (simp add: map_of_eq_None_iff)
next
  assume s: "ur_EndDate req' = None"
  obtain res d' where r: "p3_Update ord now ids req' d = (res, d')"
    by (cases "p3_Update ord now ids req' d")
  from p3_Update_outcome[OF r]
  have "map (\<lambda>r. (ID r, EndDate r)) (rows d') = map (\<lambda>r. (ID r, EndDate r)) (rows d)"
  proof
    assume "d' = d \<and> res \<noteq> Inr ()"
    then show ?thesis by simp
  next
    assume "\<exists>uid upd cs w args r. uuid_Parse ids = Some uid \<and> p3_updates req' = Inr upd
             \<and> Update_query ord now uid upd = (Update_stmt cs w, args)
             \<and> db_exec (Update_stmt cs w) args d = (r, d')
             \<and> (res = Inr () \<longrightarrow> (\<exists>n. r = Inr (Affected n) \<and> n \<noteq> 0))"
    then obtain uid upd cs w args r0 where u: "p3_updates req' = Inr upd"
      and q: "Update_query ord now uid upd = (Update_stmt cs w, args)"
      and e: "db_exec (Update_stmt cs w) args d = (r0, d')"
      by blast
    from updates_keys_p3[OF u] s
    have "set (map fst upd) \<subseteq> {''service_name'', ''price'', ''end_date''}"
      "''end_date'' \<notin> set (map fst upd)" by simp_all
    from absent_end_kept[OF assms this q e] show ?thesis .
  qed
  with r show "map (\<lambda>r. (ID r, EndDate r)) (rows (snd (p3_Update ord now ids req' d)))
              = map (\<lambda>r. (ID r, EndDate r)) (rows d)" by simp
next
  assume s: "ur_EndDate req' = None"
  obtain res d' where r: "svc_Update ord now ids req' d = (res, d')"
    by (cases "svc_Update ord now ids req' d")
  from svc_Update_outcome[OF r]
  have "map (\<lambda>r. (ID r, EndDate r)) (rows d') = map (\<lambda>r. (ID r, EndDate r)) (rows d)"
  proof
    assume "d' = d \<and> (res = Inr () \<longrightarrow> svc_updates req' = Inr [])"
    then show ?thesis by simp
  next
    assume "\<exists>uid upd cs w args r. uuid_Parse ids = Some uid \<and> svc_updates req' = Inr upd
             \<and> Update_query ord now uid upd = (Update_stmt cs w, args)
             \<and> db_exec (Update_stmt cs w) args d = (r, d')
             \<and> (res = Inr () \<longrightarrow> (\<exists>n. r = Inr (Affected n) \<and> n \<noteq> 0))"
    then obtain uid upd cs w args r0 where u: "svc_updates req' = Inr upd"
      and q: "Update_query ord now uid upd = (Update_stmt cs w, args)"
      and e: "db_exec (Update_stmt cs w) args d = (r0, d')"
      by blast
    from updates_keys_svc[OF u] s
    have "set (map fst upd) \<subseteq> {''service_name'', ''price'', ''end_date''}"
      "''end_date'' \<notin> set (map fst upd)" by simp_all
    from absent_end_kept[OF assms this q e] show ?thesis .
  qed
  with r show "map (\<lambda>r. (ID r, EndDate r)) (rows (snd (svc_Update ord now ids req' d)))
              = map (\<lambda>r. (ID r, EndDate r)) (rows d)" by simp
qed

theorem C6_end_date_sentinel_witness:
  "ur_EndDate clear_end = Some [] \<and> ur_EndDate price_only = None
   \<and> map_of [(''price'', VInt 9), (''end_date'', VNull)] ''end_date'' = Some VNull
   \<and> fst (p3_Update rev 200 str_A clear_end db1) = Inr ()
   \<and> (\<exists>sub. fst (p3_GetByID str_A (snd (p3_Update rev 200 str_A clear_end db1))) = Inr (Some sub)
          \<and> EndDate sub = None)
   \<and> fst (svc_Update rev 200 str_A clear_end db1) = Inr ()
   \<and> (\<exists>sub. fst (svc_GetByID str_A (snd (svc_Update rev 200 str_A clear_end db1))) = Inr (Some sub)
          \<and> EndDate sub = None)
   \<and> map_of [(''price'', VInt 9)] ''end_date'' = None
   \<and> map (\<lambda>r. (ID r, EndDate r)) (rows (snd (p3_Update rev 200 str_A price_only db1)))
       = map (\<lambda>r. (ID r, EndDate r)) (rows db1)
   \<and> map (\<lambda>r. (ID r, EndDate r)) (rows (snd (svc_Update rev 200 str_A price_only db1)))
       = map (\<lambda>r. (ID r, EndDate r)) (rows db1)"
proof -
  have perm: "\<And>m :: updates. mset (rev m) = mset m" by simp
  have h1: "ur_EndDate clear_end = Some []" by (simp add: clear_end_def)
  have h2: "ur_EndDate price_only = None" by (simp add: price_only_def)
  note c = C6_end_date_sentinel[OF perm, of clear_end 200 str_A db1 price_only]
  from c h1 have a1: "map_of [(''price'', VInt 9), (''end_date'', VNull)] ''end_date'' = Some VNull"
    using clear_end_runs(3) by blast
  from c h1 have a2: "\<exists>sub. fst (p3_GetByID str_A (snd (p3_Update rev 200 str_A clear_end db1)))
        = Inr (Some sub) \<and> EndDate sub = None"
    using clear_end_runs(1) by blast
  from c h1 have a3: "\<exists>sub. fst (svc_GetByID str_A (snd (svc_Update rev 200 str_A clear_end db1)))
        = Inr (Some sub) \<and> EndDate sub = None"
    using clear_end_runs(2) by blast
  from c h2 have a4: "map_of [(''price'', VInt 9)] ''end_date'' = None"
    using clear_end_runs(5) by blast
  from c h2 have a5: "map (\<lambda>r. (ID r, EndDate r)) (rows (snd (p3_Update rev 200 str_A price_only db1)))
       = map (\<lambda>r. (ID r, EndDate r)) (rows db1)" by blast
  from c h2 have a6: "map (\<lambda>r. (ID r, EndDate r)) (rows (snd (svc_Update rev 200 str_A price_only db1)))
       = map (\<lambda>r. (ID r, EndDate r)) (rows db1)" by blast
  have b1: "fst (p3_Update rev 200 str_A clear_end db1) = Inr ()"
    using clear_end_runs(1) by (metis fst_conv)
  have b2: "fst (svc_Update rev 200 str_A clear_end db1) = Inr ()"
    using clear_end_runs(2) by (metis fst_conv)
  from h1 h2 a1 a2 a3 a4 a5 a6 b1 b2 show ?thesis by simp
qed

text \<open>
  Claim C7.  Whatever the request, an update hands at most one statement to the store, and
  every column of its SET clause is one of \<open>service_name\<close>, \<open>price\<close>, \<open>end_date\<close> and
  \<open>updated_at\<close>: the names are constants of the service, never text of the request.  The
  order in which Go ranges over the update set is any permutation \<open>ord\<close>.
\<close>

theorem C7_set_clause_columns:
  assumes "\<And>m. mset (ord m) = mset m"
  shows "(log (snd (p3_Update ord now ids req d)) = log d
          \<or> (\<exists>cs w args.
                log (snd (p3_Update ord now ids req d)) = log d @ [(Update_stmt cs w, args)]
                \<and> set (map fst cs)
                     \<subseteq> {''service_name'', ''price'', ''end_date'', ''updated_at''}))
       \<and> (log (snd (svc_Update ord now ids req d)) = log d
          \<or> (\<exists>cs w args.
                log (snd (svc_Update ord now ids req d)) = log d @ [(Update_stmt cs w, args)]
                \<and> set (map fst cs)
                     \<subseteq> {''service_name'', ''price'', ''end_date'', ''updated_at''}))"
proof
  obtain res d' where r: "p3_Update ord now ids req d = (res, d')"
    by (cases "p3_Update ord now ids req d")
  from p3_Update_outcome[OF r]
  show "log (snd (p3_Update ord now ids req d)) = log d
          \<or> (\<exists>cs w args.
                log (snd (p3_Update ord now ids req d)) = log d @ [(Update_stmt cs w, args)]
                \<and> set (map fst cs)
                     \<subseteq> {''service_name'', ''price'', ''end_date'', ''updated_at''})"
  proof
    assume "d' = d \<and> res \<noteq> Inr ()"
    with r show ?thesis by simp
  next
    assume "\<exists>uid upd cs w args r. uuid_Parse ids = Some uid \<and> p3_updates req = Inr upd
             \<and> Update_query ord now uid upd = (Update_stmt cs w, args)
             \<and> db_exec (Update_stmt cs w) args d = (r, d')
             \<and> (res = Inr () \<longrightarrow> (\<exists>n. r = Inr (Affected n) \<and> n \<noteq> 0))"
    then obtain uid upd cs w args r0 where u: "p3_updates req = Inr upd"
      and q: "Update_query ord now uid upd = (Update_stmt cs w, args)"
      and e: "db_exec (Update_stmt cs w) args d = (r0, d')"
      by blast
    from updates_keys_p3[OF u] have "set (map fst upd) \<subseteq> {''service_name'', ''price'', ''end_date''}"
      by simp
    from query_columns_allowed[OF assms this q] db_exec_Update[OF e] r
    show ?thesis by auto
  qed
next
  obtain res d' where r: "svc_Update ord now ids req d = (res, d')"
    by (cases "svc_Update ord now ids req d")
  from svc_Update_outcome[OF r]
  show "log (snd (svc_Update ord now ids req d)) = log d
          \<or> (\<exists>cs w args.
                log (snd (svc_Update ord now ids req d)) = log d @ [(Update_stmt cs w, args)]
                \<and> set (map fst cs)
                     \<subseteq> {''service_name'', ''price'', ''end_date'', ''updated_at''})"
  proof
    assume "d' = d \<and> (res = Inr () \<longrightarrow> svc_updates req = Inr [])"
    with r show ?thesis by simp
  next
    assume "\<exists>uid upd cs w args r. uuid_Parse ids = Some uid \<and> svc_updates req = Inr upd
             \<and> Update_query ord now uid upd = (Update_stmt cs w, args)
             \<and> db_exec (Update_stmt cs w) args d = (r, d')
             \<and> (res = Inr () \<longrightarrow> (\<exists>n. r = Inr (Affected n) \<and> n \<noteq> 0))"
    then obtain uid upd cs w args r0 where u: "svc_updates req = Inr upd"
      and q: "Update_query ord now uid upd = (Update_stmt cs w, args)"
      and e: "db_exec (Update_stmt cs w) args d = (r0, d')"
      by blast
    from updates_keys_svc[OF u] have "set (map fst upd) \<subseteq> {''service_name'', ''price'', ''end_date''}"
      by simp
    from query_columns_allowed[OF assms this q] db_exec_Update[OF e] r
    show ?thesis by auto
  qed
qed

theorem C7_set_clause_columns_witness:
  "(log (snd (p3_Update rev 200 str_A clear_end db1)) = log db1
     \<or> (\<exists>cs w args.
           log (snd (p3_Update rev 200 str_A clear_end db1)) = log db1 @ [(Update_stmt cs w, args)]
           \<and> set (map fst cs) \<subseteq> {''service_name'', ''price'', ''end_date'', ''updated_at''}))
   \<and> (log (snd (svc_Update rev 200 str_A clear_end db1)) = log db1
     \<or> (\<exists>cs w args.
           log (snd (svc_Update rev 200 str_A clear_end db1)) = log db1 @ [(Update_stmt cs w, args)]
           \<and> set (map fst cs) \<subseteq> {''service_name'', ''price'', ''end_date'', ''updated_at''}))
   \<and> log (snd (p3_Update rev 200 str_A clear_end db1)) =
        [(Update_stmt [(''end_date'', 1), (''price'', 2), (''updated_at'', 3)] 4,
          [VNull, VInt 9, VTime 200, VUuid id_A])]"
proof -
  have perm: "\<And>m :: updates. mset (rev m) = mset m" by simp
  from C7_set_clause_columns[OF perm, of 200 str_A clear_end db1] clear_end_log(1)
  show ?thesis by simp
qed

text \<open>
  Claim C8, amended.  An aggregate request whose two periods parse and whose start is strictly
  after its end fails without a call to the store: in unnamed/part_003 with a validation error
  tagged \<open>date_range\<close>, in internal/service/subscription.go with an error that carries no
  field tag.
\<close>

theorem C8_inverted_window:
  assumes "Parse_2006_01_02 (ar_StartDate req) = Some s"
    and "Parse_2006_01_02 (ar_EndDate req) = Some e" and "date_less e s"
    and "Parse_01_2006 (ar_StartDate req') = Some s'"
    and "Parse_01_2006 (ar_EndDate req') = Some e'" and "date_less e' s'"
  shows "p3_Aggregate req d =
           (Inl (ValidationError ''date_range''
                  (ErrorsNew ''start_date must be before or equal to end_date'')), d)
       \<and> svc_Aggregate req' d =
           (Inl (ErrorsNew ''start_date must be before or equal to end_date''), d)"
  using assms by (simp add: p3_Aggregate_def svc_Aggregate_def)

theorem C8_inverted_window_witness:
  "Parse_2006_01_02 (ar_StartDate (window_request ''2024-03-01'' ''2024-02-01''))
     = Some (Date 2024 3 1)
   \<and> Parse_2006_01_02 (ar_EndDate (window_request ''2024-03-01'' ''2024-02-01''))
     = Some (Date 2024 2 1)
   \<and> Parse_01_2006 (ar_StartDate (window_request ''03-2024'' ''02-2024'')) = Some (Date 2024 3 1)
   \<and> Parse_01_2006 (ar_EndDate (window_request ''03-2024'' ''02-2024'')) = Some (Date 2024 2 1)
   \<and> date_less (Date 2024 2 1) (Date 2024 3 1)
   \<and> p3_Aggregate (window_request ''2024-03-01'' ''2024-02-01'') db2 =
       (Inl (ValidationError ''date_range''
              (ErrorsNew ''start_date must be before or equal to end_date'')), db2)
   \<and> svc_Aggregate (window_request ''03-2024'' ''02-2024'') db2 =
       (Inl (ErrorsNew ''start_date must be before or equal to end_date''), db2)"
proof -
  have h1: "Parse_2006_01_02 (ar_StartDate (window_request ''2024-03-01'' ''2024-02-01''))
      = Some (Date 2024 3 1)"
    by (simp add: window_request_def parse_days)
  have h2: "Parse_2006_01_02 (ar_EndDate (window_request ''2024-03-01'' ''2024-02-01''))
      = Some (Date 2024 2 1)"
    by (simp add: window_request_def parse_days)
  have h3: "date_less (Date 2024 2 1) (Date 2024 3 1)"
    by (simp add: date_less_def)
  have h4: "Parse_01_2006 (ar_StartDate (window_request ''03-2024'' ''02-2024''))
      = Some (Date 2024 3 1)"
    by (simp add: window_request_def parse_months)
  have h5: "Parse_01_2006 (ar_EndDate (window_request ''03-2024'' ''02-2024''))
      = Some (Date 2024 2 1)"
    by (simp add: window_request_def parse_months)
  show ?thesis
    using C8_inverted_window[OF h1 h2 h3 h4 h5 h3, of db2] h1 h2 h3 h4 h5 by simp
qed

text \<open>Claim C8 as stated fails on internal/service/subscription.go: the window 2024-03 to
  2024-02 is refused with an error in which no \<open>ValidationError\<close> is found, so it has no
  field tag.\<close>

theorem C8_counterexample:
  "svc_Aggregate (window_request ''03-2024'' ''02-2024'') db2 =
     (Inl (ErrorsNew ''start_date must be before or equal to end_date''), db2)
   \<and> as_ValidationError (ErrorsNew ''start_date must be before or equal to end_date'') = None"
  by code_simp

text \<open>
  Claim C9, amended.  A list call with a valid filter that matches no stored subscription, on
  a store that answers, succeeds without an error and returns a result of length 0.  That
  result is the nil slice the scan loop starts from, Go's null, not an allocated empty slice.
  A filter is valid when its user id and its dates, if given, parse (in the layout of the
  variant); it matches a subscription when the user id is equal, the start date is not before
  the filter's, the end date is null or not after the filter's, and the service name matches
  the filter between two \<^verbatim>\<open>%\<close> as a case-insensitive pattern.
\<close>

theorem C9_list_no_match:
  assumes "available d"
  shows "((\<forall>r \<in> set (rows d). \<not> (list_selected flt r \<and> list_name_selected flt r))
           \<longrightarrow> fst (repo_List flt d) = Inr NilSlice)
       \<and> (rel_option (\<lambda>s u. uuid_Parse s = Some u) userID fu
           \<and> rel_option (\<lambda>s x. Parse_2006_01_02 s = Some x) startDate fs
           \<and> rel_option (\<lambda>s x. Parse_2006_01_02 s = Some x) endDate fe
           \<and> (\<forall>r \<in> set (rows d).
                 \<not> (list_selected \<lparr>f_UserID = fu, f_ServiceName = serviceName,
                        f_StartDate = fs, f_EndDate = fe, f_Limit = limit,
                        f_Offset = offset\<rparr> r
                    \<and> list_name_selected \<lparr>f_UserID = fu, f_ServiceName = serviceName,
                        f_StartDate = fs, f_EndDate = fe, f_Limit = limit,
                        f_Offset = offset\<rparr> r))
           \<longrightarrow> fst (p3_List userID serviceName startDate endDate limit offset d)
                 = Inr NilSlice)
       \<and> (rel_option (\<lambda>s u. uuid_Parse s = Some u) userID' fu'
           \<and> rel_option (\<lambda>s x. Parse_01_2006 s = Some x) startDate' fs'
           \<and> rel_option (\<lambda>s x. Parse_01_2006 s = Some x) endDate' fe'
           \<and> (\<forall>r \<in> set (rows d).
                 \<not> (list_selected \<lparr>f_UserID = fu', f_ServiceName = serviceName',
                        f_StartDate = fs', f_EndDate = fe', f_Limit = limit',
                        f_Offset = offset'\<rparr> r
                    \<and> list_name_selected \<lparr>f_UserID = fu', f_ServiceName = serviceName',
                        f_StartDate = fs', f_EndDate = fe', f_Limit = limit',
                        f_Offset = offset'\<rparr> r))
           \<longrightarrow> fst (svc_List userID' serviceName' startDate' endDate' limit' offset' d)
                 = Inr NilSlice)
       \<and> elems (NilSlice :: Subscription slice) = []
       \<and> (NilSlice :: Subscription slice) \<noteq> Slice []"
proof -
  have r: "fst (repo_List g d) = Inr NilSlice"
    if "\<forall>r \<in> set (rows d). \<not> (list_selected g r \<and> list_name_selected g r)" for g
  proof -
    have "filter (\<lambda>r. list_selected g r \<and> list_name_selected g r) (rows d) = []"
      using that by (auto simp: filter_empty_conv)
    with repo_List_result[OF assms, of g] show ?thesis
      by (simp add: page_Nil order_Nil scanned_def)
  qed
  have p: "fst (p3_List userID serviceName startDate endDate limit offset d) = Inr NilSlice"
    if "rel_option (\<lambda>s u. uuid_Parse s = Some u) userID fu"
      and "rel_option (\<lambda>s x. Parse_2006_01_02 s = Some x) startDate fs"
      and "rel_option (\<lambda>s x. Parse_2006_01_02 s = Some x) endDate fe"
      and "\<forall>r \<in> set (rows d).
                 \<not> (list_selected \<lparr>f_UserID = fu, f_ServiceName = serviceName,
                        f_StartDate = fs, f_EndDate = fe, f_Limit = limit,
                        f_Offset = offset\<rparr> r
                    \<and> list_name_selected \<lparr>f_UserID = fu, f_ServiceName = serviceName,
                        f_StartDate = fs, f_EndDate = fe, f_Limit = limit,
                        f_Offset = offset\<rparr> r)"
  proof -
    obtain res d' where e: "repo_List \<lparr>f_UserID = fu, f_ServiceName = serviceName,
        f_StartDate = fs, f_EndDate = fe, f_Limit = limit, f_Offset = offset\<rparr> d = (res, d')"
      by (cases "repo_List \<lparr>f_UserID = fu, f_ServiceName = serviceName,
        f_StartDate = fs, f_EndDate = fe, f_Limit = limit, f_Offset = offset\<rparr> d")
    with r[OF that(4)] have "res = Inr NilSlice" by simp
    with e show ?thesis
      by (simp add: p3_List_valid[OF that(1,2,3)])
  qed
  have s: "fst (svc_List userID' serviceName' startDate' endDate' limit' offset' d)
      = Inr NilSlice"
    if "rel_option (\<lambda>s u. uuid_Parse s = Some u) userID' fu'"
      and "rel_option (\<lambda>s x. Parse_01_2006 s = Some x) startDate' fs'"
      and "rel_option (\<lambda>s x. Parse_01_2006 s = Some x) endDate' fe'"
      and "\<forall>r \<in> set (rows d).
                 \<not> (list_selected \<lparr>f_UserID = fu', f_ServiceName = serviceName',
                        f_StartDate = fs', f_EndDate = fe', f_Limit = limit',
                        f_Offset = offset'\<rparr> r
                    \<and> list_name_selected \<lparr>f_UserID = fu', f_ServiceName = serviceName',
                        f_StartDate = fs', f_EndDate = fe', f_Limit = limit',
                        f_Offset = offset'\<rparr> r)"
  proof -
    obtain res d' where e: "repo_List \<lparr>f_UserID = fu', f_ServiceName = serviceName',
        f_StartDate = fs', f_EndDate = fe', f_Limit = limit', f_Offset = offset'\<rparr> d
          = (res, d')"
      by (cases "repo_List \<lparr>f_UserID = fu', f_ServiceName = serviceName',
        f_StartDate = fs', f_EndDate = fe', f_Limit = limit', f_Offset = offset'\<rparr> d")
    with r[OF that(4)] have "res = Inr NilSlice" by simp
    with e show ?thesis
      by (simp add: svc_List_valid[OF that(1,2,3)])
  qed
  from r p s show ?thesis by simp
qed

theorem C9_list_no_match_witness:
  "available db2
   \<and> \<not> like_wf [CHR 0x5C]
   \<and> list_all (\<lambda>r. \<not> (list_selected (name_filter [CHR 0x5C]) r
         \<and> list_name_selected (name_filter [CHR 0x5C]) r)) (rows db2)
   \<and> fst (repo_List (name_filter [CHR 0x5C]) db2) = Inr NilSlice
   \<and> Parse_2006_01_02 ''2024-02-02'' = Some (Date 2024 2 2)
   \<and> list_all (\<lambda>r. \<not> (list_selected (from_date (Date 2024 2 2)) r
         \<and> list_name_selected (from_date (Date 2024 2 2)) r)) (rows db2)
   \<and> fst (p3_List None None (Some ''2024-02-02'') None 10 0 db2) = Inr NilSlice
   \<and> Parse_01_2006 ''03-2024'' = Some (Date 2024 3 1)
   \<and> list_all (\<lambda>r. \<not> (list_selected (from_date (Date 2024 3 1)) r
         \<and> list_name_selected (from_date (Date 2024 3 1)) r)) (rows db2)
   \<and> fst (svc_List None None (Some ''03-2024'') None 10 0 db2) = Inr NilSlice"
proof -
  have av: "available db2" by (simp add: db2_def)
  note c = C9_list_no_match[OF av, where flt = "name_filter [CHR 0x5C]"
      and userID = None and fu = None and serviceName = None
      and startDate = "Some ''2024-02-02''" and fs = "Some (Date 2024 2 2)"
      and endDate = None and fe = None and limit = 10 and offset = 0
      and userID' = None and fu' = None and serviceName' = None
      and startDate' = "Some ''03-2024''" and fs' = "Some (Date 2024 3 1)"
      and endDate' = None and fe' = None and limit' = 10 and offset' = 0]
  have n1: "\<forall>r \<in> set (rows db2). \<not> (list_selected (name_filter [CHR 0x5C]) r
         \<and> list_name_selected (name_filter [CHR 0x5C]) r)"
    using no_match_values(1) by (simp only: list_all_iff)
  have n2: "\<forall>r \<in> set (rows db2). \<not> (list_selected (from_date (Date 2024 2 2)) r
         \<and> list_name_selected (from_date (Date 2024 2 2)) r)"
    using no_match_values(2) by (simp only: list_all_iff)
  have n3: "\<forall>r \<in> set (rows db2). \<not> (list_selected (from_date (Date 2024 3 1)) r
         \<and> list_name_selected (from_date (Date 2024 3 1)) r)"
    using no_match_values(3) by (simp only: list_all_iff)
  have a1: "fst (repo_List (name_filter [CHR 0x5C]) db2) = Inr NilSlice"
    using c n1 by blast
  have a2: "fst (p3_List None None (Some ''2024-02-02'') None 10 0 db2) = Inr NilSlice"
    using c n2 no_match_values(4) by (simp add: from_date_def)
  have a3: "fst (svc_List None None (Some ''03-2024'') None 10 0 db2) = Inr NilSlice"
    using c n3 parse_months(3) by (simp add: from_date_def)
  from av a1 a2 a3 no_match_values parse_months(3) show ?thesis by blast
qed

text \<open>Claim C9 as stated fails: listing an empty store returns the nil slice in both variants
  of the service.\<close>

theorem C9_counterexample:
  "svc_List None None None None 10 0 db0 =
     (Inr NilSlice, db0\<lparr>log := [(SelectList_stmt [] (Some 1) None, [VInt 10])]\<rparr>)
   \<and> p3_List None None None None 10 0 db0 =
     (Inr NilSlice, db0\<lparr>log := [(SelectList_stmt [] (Some 1) None, [VInt 10])]\<rparr>)
   \<and> (NilSlice :: Subscription slice) \<noteq> Slice []"
  by code_simp

text \<open>
  Claim C10, amended.  For every service-name filter, the aggregate query is the query without
  the filter plus the condition \<^verbatim>\<open>service_name ILIKE $k\<close> whose argument is the supplied
  string itself: the whole service name must match it as a case-insensitive pattern, and for
  a filter that does not end with a dangling escape character the aggregate counts exactly
  the subscriptions that do.  The list query passes the filter between two \<^verbatim>\<open>%\<close> and
  returns the subscriptions whose service name matches that pattern.  For a filter without
  the characters \<^verbatim>\<open>%\<close>, \<^verbatim>\<open>_\<close> and backslash, the aggregate counts exactly the
  subscriptions whose whole service name equals the filter up to the case of letters, and
  the list returns those whose service name contains it.
\<close>

theorem C10_service_name_filter:
  assumes "available d" and "f_ServiceName flt = Some n"
  shows "(\<exists>ks args. Aggregate_query ps pe u None = (SelectSum_stmt ks, args)
            \<and> Aggregate_query ps pe u (Some n) =
                (SelectSum_stmt (ks @ [Cmp ''service_name'' OpILike (Suc (length args))]),
                 args @ [VText n]))
       \<and> (like_wf n \<longrightarrow>
            fst (repo_Aggregate ps pe u (Some n) d) =
              Inr (sum_list (map Price (filter
                (\<lambda>r. overlaps ps pe r \<and> (case u of None \<Rightarrow> True | Some x \<Rightarrow> UserID r = x)
                     \<and> ilike (ServiceName r) n) (rows d)))))
       \<and> (plain n \<longrightarrow>
            fst (repo_Aggregate ps pe u (Some n) d) =
              Inr (sum_list (map Price (filter
                (\<lambda>r. overlaps ps pe r \<and> (case u of None \<Rightarrow> True | Some x \<Rightarrow> UserID r = x)
                     \<and> equal_fold (ServiceName r) n) (rows d)))))
       \<and> VText (''%'' @ n @ ''%'') \<in> set (snd (List_query flt))
       \<and> fst (repo_List flt d) =
           Inr (scanned (page (f_Limit flt) (f_Offset flt) (order_by_start_desc (filter
                  (\<lambda>r. list_selected flt r \<and> ilike (ServiceName r) (''%'' @ n @ ''%''))
                  (rows d)))))
       \<and> (plain n \<longrightarrow>
            fst (repo_List flt d) =
              Inr (scanned (page (f_Limit flt) (f_Offset flt) (order_by_start_desc (filter
                     (\<lambda>r. list_selected flt r \<and> contains_fold (ServiceName r) n)
                     (rows d))))))"
proof -
  have q1: "\<exists>ks args. Aggregate_query ps pe u None = (SelectSum_stmt ks, args)
            \<and> Aggregate_query ps pe u (Some n) =
                (SelectSum_stmt (ks @ [Cmp ''service_name'' OpILike (Suc (length args))]),
                 args @ [VText n])"
    by (cases u) (simp_all add: Aggregate_query_def)
  have q2: "VText (''%'' @ n @ ''%'') \<in> set (snd (List_query flt))"
    using assms(2)
    by (cases "f_UserID flt"; cases "f_StartDate flt"; cases "f_EndDate flt";
        cases "f_Limit flt > 0"; cases "f_Offset flt > 0")
       (simp_all add: List_query_def)
  have a: "agg_selected ps pe u (Some n) = (\<lambda>r. overlaps ps pe r
      \<and> (case u of None \<Rightarrow> True | Some x \<Rightarrow> UserID r = x) \<and> ilike (ServiceName r) n)"
    by (rule ext) (simp add: agg_selected_def)
  have l: "(\<lambda>r. list_selected flt r \<and> list_name_selected flt r)
      = (\<lambda>r. list_selected flt r \<and> ilike (ServiceName r) (''%'' @ n @ ''%''))"
    by (rule ext) (simp add: list_name_selected_def assms(2))
  have agg: "fst (repo_Aggregate ps pe u (Some n) d) =
      Inr (sum_list (map Price (filter
        (\<lambda>r. overlaps ps pe r \<and> (case u of None \<Rightarrow> True | Some x \<Rightarrow> UserID r = x)
             \<and> ilike (ServiceName r) n) (rows d))))" if "like_wf n"
  proof -
    have wf: "case Some n of None \<Rightarrow> True | Some p \<Rightarrow> like_wf p"
      using that by simp
    show ?thesis
      using repo_Aggregate_total[OF assms(1) wf, of ps pe u] by (simp add: spec_total_def a)
  qed
  have lst: "fst (repo_List flt d) =
      Inr (scanned (page (f_Limit flt) (f_Offset flt) (order_by_start_desc (filter
             (\<lambda>r. list_selected flt r \<and> ilike (ServiceName r) (''%'' @ n @ ''%''))
             (rows d)))))"
    using repo_List_result[OF assms(1), of flt] by (simp add: l)
  have aggp: "fst (repo_Aggregate ps pe u (Some n) d) =
      Inr (sum_list (map Price (filter
        (\<lambda>r. overlaps ps pe r \<and> (case u of None \<Rightarrow> True | Some x \<Rightarrow> UserID r = x)
             \<and> equal_fold (ServiceName r) n) (rows d))))" if "plain n"
    using agg[OF plain_wf[OF that]] by (simp add: ilike_plain[OF that])
  have lstp: "fst (repo_List flt d) =
      Inr (scanned (page (f_Limit flt) (f_Offset flt) (order_by_start_desc (filter
             (\<lambda>r. list_selected flt r \<and> contains_fold (ServiceName r) n) (rows d)))))"
    if "plain n"
    using lst by (simp add: ilike_wrapped[OF that])
  from q1 q2 agg lst aggp lstp show ?thesis by blast
qed

theorem C10_service_name_filter_witness:
  "available db2 \<and> plain ''flix'' \<and> plain ''netflix''
   \<and> like_wf ''e_flix'' \<and> \<not> plain ''e_flix''
   \<and> f_ServiceName (name_filter ''flix'') = Some ''flix''
   \<and> fst (repo_Aggregate (Date 2024 1 1) (Date 2024 12 1) None (Some ''flix'') db2) = Inr 0
   \<and> fst (repo_Aggregate (Date 2024 1 1) (Date 2024 12 1) None (Some ''netflix'') db2) = Inr 5
   \<and> fst (repo_List (name_filter ''flix'') db2) = Inr (Slice [sub_A])
   \<and> fst (repo_Aggregate (Date 2024 1 1) (Date 2024 12 1) None (Some ''e_flix'') db2) = Inr 0
   \<and> fst (repo_List (name_filter ''e_flix'') db2) = Inr (Slice [sub_A])"
proof -
  have av: "available db2" by (simp add: db2_def)
  have f1: "f_ServiceName (name_filter ''flix'') = Some ''flix''"
    by (simp add: name_filter_def)
  have f2: "f_ServiceName (name_filter ''netflix'') = Some ''netflix''"
    by (simp add: name_filter_def)
  have f3: "f_ServiceName (name_filter ''e_flix'') = Some ''e_flix''"
    by (simp add: name_filter_def)
  note a = C10_service_name_filter[OF av f1, of "Date 2024 1 1" "Date 2024 12 1" None]
  note b = C10_service_name_filter[OF av f2, of "Date 2024 1 1" "Date 2024 12 1" None]
  note c = C10_service_name_filter[OF av f3, of "Date 2024 1 1" "Date 2024 12 1" None]
  note a_agg = a[THEN conjunct2, THEN conjunct2, THEN conjunct1, THEN mp,
      OF name_filter_values(1)]
  note a_list = a[THEN conjunct2, THEN conjunct2, THEN conjunct2, THEN conjunct2,
      THEN conjunct2, THEN mp, OF name_filter_values(1)]
  note b_agg = b[THEN conjunct2, THEN conjunct2, THEN conjunct1, THEN mp,
      OF name_filter_values(2)]
  note c_agg = c[THEN conjunct2, THEN conjunct1, THEN mp, OF pattern_filter_values(1)]
  note c_list = c[THEN conjunct2, THEN conjunct2, THEN conjunct2, THEN conjunct2,
      THEN conjunct1]
  have a1: "fst (repo_Aggregate (Date 2024 1 1) (Date 2024 12 1) None (Some ''flix'') db2)
      = Inr 0"
    using a_agg name_filter_values(3) by simp
  have a2: "fst (repo_List (name_filter ''flix'') db2) = Inr (Slice [sub_A])"
    using a_list name_filter_values(5) by simp
  have b1: "fst (repo_Aggregate (Date 2024 1 1) (Date 2024 12 1) None (Some ''netflix'') db2)
      = Inr 5"
    using b_agg name_filter_values(4) by simp
  have c1: "fst (repo_Aggregate (Date 2024 1 1) (Date 2024 12 1) None (Some ''e_flix'') db2)
      = Inr 0"
    using c_agg pattern_filter_values(3) by simp
  have c2: "fst (repo_List (name_filter ''e_flix'') db2) = Inr (Slice [sub_A])"
    using c_list pattern_filter_values(4) by simp
  from av name_filter_values(1,2) pattern_filter_values(1,2) f1 a1 a2 b1 c1 c2
  show ?thesis by simp
qed

text \<open>Claim C10 as stated fails for a filter with a special character: with the filter
  \<^verbatim>\<open>net%\<close> the aggregate counts Netflix, whose name is not the supplied string.\<close>

theorem C10_counterexample:
  "fst (repo_Aggregate (Date 2024 1 1) (Date 2024 12 1) None (Some ''net%'') db2) = Inr 5
   \<and> Price sub_A = 5 \<and> ilike (ServiceName sub_A) ''net%''
   \<and> filter (\<lambda>r. equal_fold (ServiceName r) ''net%'') (rows db2) = []"
  by code_simp

end
